theory Spec2Isabelle
  imports Complex_Main
begin

section \<open>NaTGenPD: cluster filtering, polynomial fits and fit filtering\<close>

text \<open>
  The development follows \<^verbatim>\<open>NaTGenPD/filter.py\<close>: the class \<^verbatim>\<open>Filter\<close> (regime
  filter parameters), \<^verbatim>\<open>PolyFit.extract_fit\<close> (one fit row) and \<^verbatim>\<open>FitFilter\<close>
  (rejection of outlying fits).

  Numbers. The Python code computes with binary64 floats. Here a float is a real
  number and the operations are the exact ones; a missing value (\<^verbatim>\<open>None\<close>, \<^verbatim>\<open>NaN\<close>)
  is written \<open>None\<close> or \<open>NA\<close>, and every comparison with it is false, as in numpy.
  Rounding is therefore not part of the model.
\<close>

subsection \<open>Python exceptions\<close>

datatype error = IndexError | KeyError | ValueError | TypeError | AttributeError

subsection \<open>Filter: parameters of the regime filter\<close>

text \<open>\<^verbatim>\<open>int(x)\<close> on a float truncates towards zero.\<close>

definition py_int :: "real \<Rightarrow> int" where
  "py_int x = (if 0 \<le> x then \<lfloor>x\<rfloor> else \<lceil>x\<rceil>)"

text \<open>\<^verbatim>\<open>Filter.total_points\<close>: \<^verbatim>\<open>self._years * 8760\<close>.\<close>

definition total_points :: "int \<Rightarrow> int" where
  "total_points years = years * 8760"

text \<open>
  The two parameters \<^verbatim>\<open>Filter.filter_group\<close> derives before it filters any unit:
  \<^verbatim>\<open>min_samples = int(total_points / 1000)\<close> and \<^verbatim>\<open>threshold = int(total_points / 100)\<close>,
  where \<^verbatim>\<open>/\<close> is true division.
\<close>

definition filter_group_min_samples :: "int \<Rightarrow> int" where
  "filter_group_min_samples years = py_int (real_of_int (total_points years) / 1000)"

definition filter_group_threshold :: "int \<Rightarrow> int" where
  "filter_group_threshold years = py_int (real_of_int (total_points years) / 100)"

subsection \<open>Tables\<close>

text \<open>
  A cell of a pandas table holds a float, a string, or nothing (\<^verbatim>\<open>None\<close>/\<^verbatim>\<open>NaN\<close>).
  A row (a \<^verbatim>\<open>pandas.Series\<close>) lists its column names with their cells, in column order;
  a table (a \<^verbatim>\<open>DataFrame\<close>) is the list of its rows. A table with an index
  (\<^verbatim>\<open>set_index\<close>) pairs each row with its label.
\<close>

datatype cell = Num real | Str string | NA

type_synonym row = "(string \<times> cell) list"
type_synonym frame = "row list"
type_synonym indexed_frame = "(cell \<times> row) list"

fun bind :: "error + 'a \<Rightarrow> ('a \<Rightarrow> error + 'b) \<Rightarrow> error + 'b" where
  "bind (Inl e) f = Inl e"
| "bind (Inr x) f = f x"

text \<open>A loop whose body may raise: the first exception ends it.\<close>

fun map_err :: "('a \<Rightarrow> error + 'b) \<Rightarrow> 'a list \<Rightarrow> error + 'b list" where
  "map_err f [] = Inr []"
| "map_err f (x # xs) =
     (case f x of Inl e \<Rightarrow> Inl e
      | Inr y \<Rightarrow> (case map_err f xs of Inl e \<Rightarrow> Inl e | Inr ys \<Rightarrow> Inr (y # ys)))"

text \<open>\<^verbatim>\<open>s.startswith(p)\<close>.\<close>

definition startswith :: "string \<Rightarrow> string \<Rightarrow> bool" where
  "startswith s p = (take (length p) s = p)"

text \<open>\<^verbatim>\<open>row[c]\<close>: the cell of column \<open>c\<close>, \<^verbatim>\<open>KeyError\<close> when the row has no such column.\<close>

definition getitem :: "row \<Rightarrow> string \<Rightarrow> error + cell" where
  "getitem r c = (case map_of r c of None \<Rightarrow> Inl KeyError | Some v \<Rightarrow> Inr v)"

text \<open>
  \<^verbatim>\<open>df.set_index(c)\<close>: column \<open>c\<close> leaves the columns and labels the rows.
  \<^verbatim>\<open>df.reset_index()\<close> puts the labels back as the first column, named \<open>c\<close>.
\<close>

definition drop_col :: "string \<Rightarrow> row \<Rightarrow> row" where
  "drop_col c r = filter (\<lambda>(k, v). k \<noteq> c) r"

definition set_index :: "string \<Rightarrow> frame \<Rightarrow> error + indexed_frame" where
  "set_index c df = map_err (\<lambda>r. bind (getitem r c) (\<lambda>l. Inr (l, drop_col c r))) df"

definition reset_index :: "string \<Rightarrow> indexed_frame \<Rightarrow> frame" where
  "reset_index c idf = map (\<lambda>(l, r). (c, l) # r) idf"

subsection \<open>numpy\<close>

text \<open>
  \<^verbatim>\<open>np.linspace(start, stop, num)\<close>: \<open>num\<close> evenly spaced samples from \<open>start\<close> to
  \<open>stop\<close>, both included; \<open>num = 1\<close> gives \<open>[start]\<close>.
\<close>

definition linspace :: "real \<Rightarrow> real \<Rightarrow> nat \<Rightarrow> real list" where
  "linspace start stop num =
     map (\<lambda>i. start + real i * ((stop - start) / real (num - 1))) [0..<num]"

text \<open>
  \<^verbatim>\<open>np.poly1d(p)(x)\<close>: the value at \<open>x\<close> of the polynomial with coefficients \<open>p\<close>,
  highest power first, by Horner's rule (\<^verbatim>\<open>y = y * x + pv\<close> for each \<open>pv\<close>).
\<close>

definition polyval :: "real list \<Rightarrow> real \<Rightarrow> real" where
  "polyval p x = foldl (\<lambda>y pv. y * x + pv) 0 p"

text \<open>\<^verbatim>\<open>a.min()\<close>: \<^verbatim>\<open>ValueError\<close> on an empty array.\<close>

fun amin :: "real list \<Rightarrow> error + real" where
  "amin [] = Inl ValueError"
| "amin (x # xs) = Inr (fold min xs x)"

text \<open>
  \<^verbatim>\<open>a.mean()\<close> and \<^verbatim>\<open>a.std()\<close> (the population standard deviation): \<^verbatim>\<open>NaN\<close> on an
  empty array.
\<close>

definition mean :: "real list \<Rightarrow> real option" where
  "mean xs = (if xs = [] then None else Some (sum_list xs / real (length xs)))"

definition std :: "real list \<Rightarrow> real option" where
  "std xs =
     (case mean xs of None \<Rightarrow> None
      | Some m \<Rightarrow> Some (sqrt (sum_list (map (\<lambda>x. \<bar>x - m\<bar>\<^sup>2) xs) / real (length xs))))"

text \<open>Comparisons of floats: false when one side is \<^verbatim>\<open>NaN\<close>.\<close>

fun lt :: "real \<Rightarrow> real option \<Rightarrow> bool" where
  "lt x None = False"
| "lt x (Some y) = (x < y)"

fun gt :: "real \<Rightarrow> real option \<Rightarrow> bool" where
  "gt x None = False"
| "gt x (Some y) = (x > y)"

subsection \<open>PolyFit\<close>

text \<open>\<^verbatim>\<open>PolyFit.META_COLS\<close>: the metadata columns \<^verbatim>\<open>fit_unit\<close> copies onto every fit row.\<close>

definition META_COLS :: "string list" where
  "META_COLS = [''latitude'', ''longitude'', ''state'', ''EPA_region'', ''NERC_region'',
                ''unit_type'', ''fuel_type'', ''group_type'']"

text \<open>
  \<^verbatim>\<open>'{:}'.format(i)\<close> for an integer \<open>i \<ge> 0\<close>: its decimal digits.
\<close>

definition digit :: "nat \<Rightarrow> char" where
  "digit n = ''0123456789'' ! n"

function str_of_nat :: "nat \<Rightarrow> string" where
  "str_of_nat n = (if n < 10 then [digit n] else str_of_nat (n div 10) @ [digit (n mod 10)])"
  by pat_completeness auto
termination
  by (relation "measure id") auto

text \<open>
  \<^verbatim>\<open>np.polyfit(x, y, deg, full=True)\<close> is numpy's least-squares fit. It returns the
  tuple \<open>(p, residuals, rank, singular_values, rcond)\<close>, or raises.
  \<^verbatim>\<open>extract_fit\<close> reads the components 0 (the coefficients, highest power first) and 2
  (the rank of the coefficient matrix) only; the result below holds these two. The
  fit itself is a parameter of the model.
\<close>

record polyfit_result =
  coefficients :: "real list"
  rank :: nat

type_synonym polyfit = "real list \<Rightarrow> real list \<Rightarrow> nat \<Rightarrow> error + polyfit_result"

text \<open>
  \<^verbatim>\<open>pd.Series(data, index=index)\<close>: \<open>data = None\<close> gives a missing value for every
  label; an array must have as many values as there are labels (\<^verbatim>\<open>ValueError\<close>).
\<close>

definition series :: "real list option \<Rightarrow> string list \<Rightarrow> error + row" where
  "series data index =
     (case data of None \<Rightarrow> Inr (map (\<lambda>c. (c, NA)) index)
      | Some xs \<Rightarrow> if length xs \<noteq> length index then Inl ValueError
                   else Inr (zip index (map Num xs)))"

text \<open>\<^verbatim>\<open>s[k] = v\<close> on a Series: the value of label \<open>k\<close> is replaced, or a new entry is appended.\<close>

fun setitem :: "row \<Rightarrow> string \<Rightarrow> cell \<Rightarrow> row" where
  "setitem [] k v = [(k, v)]"
| "setitem ((c, w) # r) k v = (if c = k then (c, v) # r else (c, w) # setitem r k v)"

text \<open>
  The quotient of two floats as numpy computes it. With a missing operand it is
  missing. With divisor 0 numpy gives \<^verbatim>\<open>nan\<close> or an infinity, with a warning; neither is
  a number of this model, and the result is missing.
\<close>

fun cell_div :: "cell \<Rightarrow> cell \<Rightarrow> cell" where
  "cell_div (Num a) (Num b) = (if b = 0 then NA else Num (a / b))"
| "cell_div a b = NA"

text \<open>
  The labels of the load samples: \<open>load_1 ... load_points\<close>, with the first renamed
  \<open>load_min\<close> and then the last renamed \<open>load_max\<close>. Assigning to \<^verbatim>\<open>load_index[0]\<close> raises
  \<^verbatim>\<open>IndexError\<close> when there is no label.
\<close>

definition load_index :: "nat \<Rightarrow> error + string list" where
  "load_index points =
     (let index = map (\<lambda>i. ''load_'' @ str_of_nat i) [1..<points + 1]
      in if index = [] then Inl IndexError
         else Inr ((index[0 := ''load_min''])[length index - 1 := ''load_max'']))"

text \<open>
  \<^verbatim>\<open>PolyFit.extract_fit(load, heat_rate, order=4, points=5)\<close>. Any exception of the fit
  is caught (\<^verbatim>\<open>except Exception\<close>) and leaves \<open>fit_params\<close>, \<open>load_range\<close> and \<open>hr_range\<close>
  at \<^verbatim>\<open>None\<close>. \<open>points\<close> is a natural number here; \<^verbatim>\<open>np.linspace\<close> and \<^verbatim>\<open>np.poly1d\<close>
  do not raise on the values they receive.
\<close>

definition extract_fit ::
  "polyfit \<Rightarrow> real list \<Rightarrow> real list \<Rightarrow> nat \<Rightarrow> nat \<Rightarrow> error + row" where
  "extract_fit polyfit load heat_rate order points =
     (let (load_min, load_max, fit) =
        (case load of
           [] \<Rightarrow> (NA, NA, None)
         | x # xs \<Rightarrow>
             (Num (fold min xs x), Num (fold max xs x),
              (case polyfit load heat_rate order of
                 Inl e \<Rightarrow> None
               | Inr fit \<Rightarrow>
                   if rank fit > 1 then
                     (let fit_params = coefficients fit;
                          load_range = linspace (fold min xs x) (fold max xs x) points;
                          hr_range = map (polyval fit_params) load_range
                      in Some (fit_params, load_range, hr_range))
                   else None)))
      in
        bind (series (map_option fst fit) [''a4'', ''a3'', ''a2'', ''a1'', ''a0'']) (\<lambda>unit_fit.
        bind (load_index points) (\<lambda>index.
        bind (series (map_option (fst \<circ> snd) fit) index) (\<lambda>unit_load.
          let unit_load = setitem unit_load ''load_min'' load_min;
              unit_load = setitem unit_load ''load_max'' load_max;
              unit_load = setitem unit_load ''total_load'' (Num (sum_list load));
              unit_load = setitem unit_load ''min_gen_perc'' (cell_div load_min load_max);
              hr_index = map (\<lambda>load_i. ''heat_rate('' @ load_i @ '')'') index
          in bind (series (map_option (snd \<circ> snd) fit) hr_index) (\<lambda>unit_hr.
               Inr (unit_fit @ unit_load @ unit_hr))))))"

subsection \<open>FitFilter\<close>

text \<open>
  \<^verbatim>\<open>FitFilter._get_hr_min(unit, points=100)\<close>. The parameters are the cells of the
  columns whose name starts with \<open>a\<close>. If one of them is missing there is no minimum.
  Otherwise the polynomial is sampled at \<open>points\<close> loads between \<open>load_min\<close> and
  \<open>load_max\<close>, and the least sample is the minimum, unless it is below 4.5.
  A missing bound makes every sample \<^verbatim>\<open>NaN\<close>, so the result is \<^verbatim>\<open>NaN\<close>: no minimum.
  A row without the columns \<open>load_min\<close> and \<open>load_max\<close> is a \<^verbatim>\<open>KeyError\<close>; a string where
  a number is expected is a \<^verbatim>\<open>TypeError\<close>, in \<^verbatim>\<open>np.linspace\<close> for a bound and in the
  evaluation of the polynomial for a coefficient.
\<close>

definition params :: "row \<Rightarrow> cell list" where
  "params unit = map snd (filter (\<lambda>(c, v). startswith c ''a'') unit)"

fun float_of :: "cell \<Rightarrow> error + real option" where
  "float_of (Num x) = Inr (Some x)"
| "float_of NA = Inr None"
| "float_of (Str s) = Inl TypeError"

fun cell_values :: "cell list \<Rightarrow> error + real list" where
  "cell_values [] = Inr []"
| "cell_values (Num x # cs) = bind (cell_values cs) (\<lambda>xs. Inr (x # xs))"
| "cell_values (c # cs) = Inl TypeError"

definition get_hr_min :: "row \<Rightarrow> nat \<Rightarrow> error + real option" where
  "get_hr_min unit points =
     (let fit_params = params unit in
      if NA \<notin> set fit_params then
        bind (getitem unit ''load_min'') (\<lambda>lmin.
        bind (getitem unit ''load_max'') (\<lambda>lmax.
        bind (float_of lmin) (\<lambda>load_min.
        bind (float_of lmax) (\<lambda>load_max.
        bind (cell_values fit_params) (\<lambda>p.
          case (load_min, load_max) of
            (Some lo, Some hi) \<Rightarrow>
              bind (amin (map (polyval p) (linspace lo hi points))) (\<lambda>hr_min.
                if hr_min < 4.5 then Inr None else Inr (Some hr_min))
          | _ \<Rightarrow> if points = 0 then Inl ValueError else Inr None)))))
      else Inr None)"

text \<open>
  \<^verbatim>\<open>FitFilter._min_hr_filter(min_hr, stdev_multiplier=2, threshold=(None, None))\<close>.
  \<open>min_hr\<close> lists the labels with their minimum heat rates; the result lists the labels
  that failed.
\<close>

definition min_hr_filter ::
  "('l \<times> real) list \<Rightarrow> real \<Rightarrow> real option \<times> real option \<Rightarrow> 'l list" where
  "min_hr_filter min_hr stdev_multiplier threshold =
     (let min_hr_values = map snd min_hr;
          min_hr_values = (case fst threshold of None \<Rightarrow> min_hr_values
                           | Some t \<Rightarrow> filter (\<lambda>v. v > t) min_hr_values);
          min_hr_values = (case snd threshold of None \<Rightarrow> min_hr_values
                           | Some t \<Rightarrow> filter (\<lambda>v. v < t) min_hr_values);
          thresh = (case (mean min_hr_values, std min_hr_values) of
                      (Some m, Some s) \<Rightarrow>
                        (Some (- stdev_multiplier * s + m), Some (stdev_multiplier * s + m))
                    | _ \<Rightarrow> (None, None));
          thresh = (case fst threshold of None \<Rightarrow> thresh | Some t \<Rightarrow> (Some t, snd thresh));
          thresh = (case snd threshold of None \<Rightarrow> thresh | Some t \<Rightarrow> (fst thresh, Some t))
      in map fst (filter (\<lambda>(l, v). lt v (fst thresh) \<or> gt v (snd thresh)) min_hr))"

text \<open>
  The keyword arguments that reach \<^verbatim>\<open>FitFilter\<close> through \<^verbatim>\<open>**kwargs\<close>: each is given
  or not. A keyword the callee does not take, or takes twice, is a \<^verbatim>\<open>TypeError\<close>.
\<close>

record kwargs =
  kw_stdev_multiplier :: "real option"
  kw_threshold :: "(real option \<times> real option) option"
  kw_cut_off :: "real option"

definition no_kwargs :: kwargs where
  "no_kwargs = \<lparr>kw_stdev_multiplier = None, kw_threshold = None, kw_cut_off = None\<rparr>"

text \<open>The defaults: \<^verbatim>\<open>stdev_multiplier=2\<close>, \<^verbatim>\<open>threshold=(None, None)\<close>, \<^verbatim>\<open>cut_off=9\<close>.\<close>

definition stdev_multiplier_of :: "kwargs \<Rightarrow> real" where
  "stdev_multiplier_of kw = (case kw_stdev_multiplier kw of None \<Rightarrow> 2 | Some k \<Rightarrow> k)"

definition threshold_of :: "kwargs \<Rightarrow> real option \<times> real option" where
  "threshold_of kw = (case kw_threshold kw of None \<Rightarrow> (None, None) | Some t \<Rightarrow> t)"

definition cut_off_of :: "kwargs \<Rightarrow> real" where
  "cut_off_of kw = (case kw_cut_off kw of None \<Rightarrow> 9 | Some c \<Rightarrow> c)"

text \<open>
  The columns a rejected fit loses: those whose name starts with \<open>a\<close>, \<open>heat_rate\<close> or
  \<open>load\<close>, except \<open>load_min\<close> and \<open>load_max\<close>.
\<close>

definition filter_col :: "string \<Rightarrow> bool" where
  "filter_col c =
     ((startswith c ''a'' \<or> startswith c ''heat_rate'' \<or> startswith c ''load'')
      \<and> c \<notin> set [''load_min'', ''load_max''])"

text \<open>\<^verbatim>\<open>df.loc[failed_units, filter_cols] = None\<close> on a table with an index.\<close>

definition null_row :: "row \<Rightarrow> row" where
  "null_row r = map (\<lambda>(c, v). if filter_col c then (c, NA) else (c, v)) r"

definition null_failed :: "cell list \<Rightarrow> indexed_frame \<Rightarrow> indexed_frame" where
  "null_failed failed_units idf =
     map (\<lambda>(l, r). if l \<in> set failed_units then (l, null_row r) else (l, r)) idf"

text \<open>
  \<^verbatim>\<open>df.apply(FitFilter._get_hr_min, axis=1).dropna()\<close>: the labels with a minimum, in
  row order.
\<close>

definition apply_hr_min :: "indexed_frame \<Rightarrow> error + (cell \<times> real) list" where
  "apply_hr_min idf =
     bind (map_err (\<lambda>(l, r). bind (get_hr_min r 100) (\<lambda>m. Inr (l, m))) idf) (\<lambda>ms.
       Inr (concat (map (\<lambda>(l, m). case m of None \<Rightarrow> [] | Some v \<Rightarrow> [(l, v)]) ms)))"

text \<open>
  \<^verbatim>\<open>FitFilter._filter(group_df, **kwargs)\<close>. \<open>failed_units\<close> is the variable of that
  name: the labels \<^verbatim>\<open>_min_hr_filter(min_hr, **kwargs)\<close> returns.
\<close>

definition failed_units :: "indexed_frame \<Rightarrow> kwargs \<Rightarrow> error + cell list" where
  "failed_units group_df kw =
     bind (apply_hr_min group_df) (\<lambda>min_hr.
       if kw_cut_off kw \<noteq> None then Inl TypeError
       else Inr (min_hr_filter min_hr (stdev_multiplier_of kw) (threshold_of kw)))"

definition filter_units :: "frame \<Rightarrow> kwargs \<Rightarrow> error + frame" where
  "filter_units group_df kw =
     bind (set_index ''unit_id'' group_df) (\<lambda>idf.
     bind (failed_units idf kw) (\<lambda>failed.
       Inr (reset_index ''unit_id'' (null_failed failed idf))))"

text \<open>
  \<^verbatim>\<open>FitFilter._filer_CCs(cc_df, cut_off=9, **kwargs)\<close>.
  \<open>cc_id\<close> is \<^verbatim>\<open>unit_id.str.split('-').str[0]\<close>: the part of the fit id before the
  first \<open>-\<close>. A missing id stays missing; a numeric column has no \<^verbatim>\<open>.str\<close>.
\<close>

fun cc_id :: "cell \<Rightarrow> error + cell" where
  "cc_id (Str s) = Inr (Str (takeWhile (\<lambda>c. c \<noteq> CHR ''-'') s))"
| "cc_id NA = Inr NA"
| "cc_id (Num x) = Inl AttributeError"

text \<open>
  \<^verbatim>\<open>cc_df['cc_id'] = ...\<close> followed by \<^verbatim>\<open>cc_df.set_index('cc_id')\<close>: a column \<open>cc_id\<close>
  the table had before is overwritten, and leaves the columns with the new one.
\<close>

definition set_index_cc :: "frame \<Rightarrow> error + indexed_frame" where
  "set_index_cc cc_df =
     map_err (\<lambda>r. bind (getitem r ''unit_id'') (\<lambda>u.
                bind (cc_id u) (\<lambda>l. Inr (l, drop_col ''cc_id'' r)))) cc_df"

text \<open>
  \<^verbatim>\<open>groupby('cc_id').min()\<close>: one entry for each \<open>cc_id\<close>, with the least of its
  minima. Rows without a \<open>cc_id\<close> belong to no group. (pandas sorts the groups by key;
  here they come in the order of their first row, and only the set of failed labels is
  used afterwards.)
\<close>

definition groupby_min :: "(cell \<times> real) list \<Rightarrow> (cell \<times> real) list" where
  "groupby_min ms =
     map (\<lambda>k. (k, fold min (map snd (filter (\<lambda>(l, v). l = k) ms))
                     (snd (hd (filter (\<lambda>(l, v). l = k) ms)))))
       (remdups (filter (\<lambda>k. k \<noteq> NA) (map fst ms)))"

text \<open>
  \<^verbatim>\<open>cc_min_hr\<close>: the minimum heat rate of every row with one, grouped by \<open>cc_id\<close>.
\<close>

definition cc_min_hr :: "indexed_frame \<Rightarrow> error + (cell \<times> real) list" where
  "cc_min_hr cc_df = bind (apply_hr_min cc_df) (\<lambda>ms. Inr (groupby_min ms))"

text \<open>
  \<open>failed_CCs\<close> is the variable \<open>failed_units\<close> of \<^verbatim>\<open>_filer_CCs\<close>: the labels
  \<^verbatim>\<open>_min_hr_filter(cc_min_hr, threshold=(None, cut_off), **kwargs)\<close> returns.
  (There \<open>cc_min_hr\<close> is a table of one column; its values are the population and the
  mask selects its rows.)
\<close>

definition failed_CCs :: "indexed_frame \<Rightarrow> kwargs \<Rightarrow> error + cell list" where
  "failed_CCs cc_df kw =
     bind (cc_min_hr cc_df) (\<lambda>cc_min_hr.
       let cut_off = cut_off_of kw
       in if kw_threshold kw \<noteq> None then Inl TypeError
          else Inr (min_hr_filter cc_min_hr (stdev_multiplier_of kw) (None, Some cut_off)))"

definition filer_CCs :: "frame \<Rightarrow> kwargs \<Rightarrow> error + frame" where
  "filer_CCs cc_df kw =
     bind (set_index_cc cc_df) (\<lambda>idf.
     bind (failed_CCs idf kw) (\<lambda>failed.
       Inr (map snd (null_failed failed idf))))"

text \<open>
  \<^verbatim>\<open>FitFilter.filter(out_dir, min_units=100, **kwargs)\<close>, for one group and for the
  store of all groups. \<open>fit_units\<close> counts the rows whose \<open>a0\<close> is not missing; the
  group is filtered when \<^verbatim>\<open>fit_units > min_units\<close>, as a CC group when its name
  contains \<open>CC\<close>. The result is what the destination holds for the group: the source
  table when the group is skipped.
\<close>

definition fit_units :: "frame \<Rightarrow> error + int" where
  "fit_units group_df =
     bind (map_err (\<lambda>r. getitem r ''a0'') group_df) (\<lambda>a0.
       Inr (int (length (filter (\<lambda>v. v \<noteq> NA) a0))))"

fun contains :: "string \<Rightarrow> string \<Rightarrow> bool" where
  "contains [] p = (p = [])"
| "contains (c # s) p = (startswith (c # s) p \<or> contains s p)"

definition filter_group_fits :: "string \<Rightarrow> frame \<Rightarrow> int \<Rightarrow> kwargs \<Rightarrow> error + frame" where
  "filter_group_fits g_type group_df min_units kw =
     bind (fit_units group_df) (\<lambda>n.
       if n > min_units then
         (if contains g_type ''CC'' then filer_CCs group_df kw
          else filter_units group_df kw)
       else Inr group_df)"

definition filter_fits ::
  "(string \<times> frame) list \<Rightarrow> int \<Rightarrow> kwargs \<Rightarrow> error + (string \<times> frame) list" where
  "filter_fits hr_fits min_units kw =
     map_err (\<lambda>(g_type, group_df).
        bind (filter_group_fits g_type group_df min_units kw) (\<lambda>df. Inr (g_type, df)))
       hr_fits"

subsection \<open>Reference notions\<close>

text \<open>
  The polynomial with coefficients \<open>p\<close>, highest power first:
  \<open>p\<^sub>0 x\<^sup>n + p\<^sub>1 x\<^sup>n\<^sup>-\<^sup>1 + ... + p\<^sub>n\<close>.
\<close>

definition polynomial :: "real list \<Rightarrow> real \<Rightarrow> real" where
  "polynomial p x = (\<Sum>j<length p. p ! j * x ^ (length p - 1 - j))"

text \<open>
  The labels of a population whose minimum heat rate lies strictly outside the band
  \<open>[lo, hi]\<close>.
\<close>

definition outside_band :: "('l \<times> real) list \<Rightarrow> real \<Rightarrow> real \<Rightarrow> 'l list" where
  "outside_band min_hr lo hi = map fst (filter (\<lambda>(l, v). v < lo \<or> v > hi) min_hr)"

text \<open>
  The cell of column \<open>c\<close> in row \<open>r\<close> once the fit of the row is rejected: missing in
  the columns a rejected fit loses, as before in the others.
\<close>

definition nulled :: "row \<Rightarrow> string \<Rightarrow> cell option" where
  "nulled r c = (if filter_col c then map_option (\<lambda>v. NA) (map_of r c) else map_of r c)"

text \<open>
  The units that fail in a group: \<open>failed_units\<close> of \<^verbatim>\<open>_filer_CCs\<close> for a CC group, of
  \<^verbatim>\<open>_filter\<close> otherwise.
\<close>

definition group_failed :: "string \<Rightarrow> frame \<Rightarrow> kwargs \<Rightarrow> error + cell list" where
  "group_failed g_type group_df kw =
     (if contains g_type ''CC'' then bind (set_index_cc group_df) (\<lambda>idf. failed_CCs idf kw)
      else bind (set_index ''unit_id'' group_df) (\<lambda>idf. failed_units idf kw))"

text \<open>
  The label under which a row of a group is filtered: its \<open>cc_id\<close> in a CC group, its
  \<open>unit_id\<close> in any other.
\<close>

definition row_label :: "string \<Rightarrow> row \<Rightarrow> error + cell" where
  "row_label g_type r =
     (if contains g_type ''CC'' then bind (getitem r ''unit_id'') cc_id
      else getitem r ''unit_id'')"

text \<open>
  What \<^verbatim>\<open>np.polyfit(x, y, deg, full=True)\<close> returns when every ordinate in \<open>y\<close> is 0
  (and \<open>x\<close> and \<open>y\<close> have the same, positive length): the least-squares solution of
  least norm is the zero polynomial, with \<open>deg + 1\<close> coefficients, and the rank is that
  of the Vandermonde matrix of \<open>x\<close> with \<open>deg + 1\<close> columns, the smaller of \<open>deg + 1\<close> and the
  number of distinct abscissae. It stands for numpy on such inputs only.
\<close>

definition polyfit_zero_ordinates :: polyfit where
  "polyfit_zero_ordinates x y deg =
     (if x = [] \<or> length x \<noteq> length y then Inl TypeError
      else Inr \<lparr>coefficients = replicate (deg + 1) 0,
                rank = min (card (set x)) (deg + 1)\<rparr>)"

subsection \<open>Example tables\<close>

text \<open>
  A fit row as \<^verbatim>\<open>PolyFit.fit_unit\<close> writes it (order 4, five points, two of the
  metadata columns), for a unit whose fitted curve is flat at the heat rate \<open>c\<close>.
\<close>

definition flat_cols :: "real \<Rightarrow> row" where
  "flat_cols c =
     [(''a4'', Num 0), (''a3'', Num 0), (''a2'', Num 0), (''a1'', Num 0), (''a0'', Num c),
      (''load_min'', Num 20), (''load_2'', Num 40), (''load_3'', Num 60),
      (''load_4'', Num 80), (''load_max'', Num 100),
      (''total_load'', Num 50000), (''min_gen_perc'', Num (1 / 5)),
      (''heat_rate(load_min)'', Num c), (''heat_rate(load_2)'', Num c),
      (''heat_rate(load_3)'', Num c), (''heat_rate(load_4)'', Num c),
      (''heat_rate(load_max)'', Num c),
      (''state'', Str ''CO''), (''group_type'', Str ''CT (NG)'')]"

definition flat_fit :: "string \<Rightarrow> real \<Rightarrow> row" where
  "flat_fit uid c = (''unit_id'', Str uid) # flat_cols c"

text \<open>The same row once its fit is rejected.\<close>

definition rejected_cols :: row where
  "rejected_cols =
     [(''a4'', NA), (''a3'', NA), (''a2'', NA), (''a1'', NA), (''a0'', NA),
      (''load_min'', Num 20), (''load_2'', NA), (''load_3'', NA),
      (''load_4'', NA), (''load_max'', Num 100),
      (''total_load'', Num 50000), (''min_gen_perc'', Num (1 / 5)),
      (''heat_rate(load_min)'', NA), (''heat_rate(load_2)'', NA),
      (''heat_rate(load_3)'', NA), (''heat_rate(load_4)'', NA),
      (''heat_rate(load_max)'', NA),
      (''state'', Str ''CO''), (''group_type'', Str ''CT (NG)'')]"

definition rejected_fit :: "string \<Rightarrow> row" where
  "rejected_fit uid = (''unit_id'', Str uid) # rejected_cols"

text \<open>
  A population of minimum heat rates: one efficient unit, nine alike, and one far
  above them.
\<close>

definition example_min_hr :: "(string \<times> real) list" where
  "example_min_hr =
     [(''1_1'', 5), (''1_2'', 9), (''2_1'', 9), (''2_2'', 9), (''3_1'', 9), (''3_2'', 9),
      (''4_1'', 9), (''5_1'', 9), (''6_1'', 9), (''7_1'', 9), (''8_1'', 30)]"

text \<open>
  A group of eleven fits with the minimum heat rates of \<open>example_min_hr\<close>, the table
  after one rejection (unit \<open>8_1\<close> rejected) and after a second one (unit \<open>1_1\<close> too).
\<close>

definition example_fits :: frame where
  "example_fits = map (\<lambda>(u, c). flat_fit u c) example_min_hr"

definition example_fits_once :: frame where
  "example_fits_once =
     map (\<lambda>(u, c). flat_fit u c) (butlast example_min_hr) @ [rejected_fit ''8_1'']"

definition example_fits_twice :: frame where
  "example_fits_twice =
     rejected_fit ''1_1'' # map (\<lambda>(u, c). flat_fit u c) (tl (butlast example_min_hr))
       @ [rejected_fit ''8_1'']"

text \<open>A CC fit table: unit 7 in two operating modes, unit 8 in one.\<close>

definition cc_fits :: frame where
  "cc_fits = [flat_fit ''7-0'' (36 / 5), flat_fit ''7-1'' (89 / 10), flat_fit ''8-0'' 12]"

text \<open>
  A group of 150 units: 99 fits flat at 9, one flat at 30, and 50 units without a fit.
\<close>

definition unit_name :: "nat \<Rightarrow> string" where
  "unit_name i = str_of_nat i @ ''_1''"

definition fits_150 :: frame where
  "fits_150 =
     map (\<lambda>i. flat_fit (unit_name i) 9) [0..<99] @ [flat_fit (unit_name 99) 30]
       @ map (\<lambda>i. rejected_fit (unit_name i)) [100..<150]"

text \<open>The same group with \<open>unit_id\<close> as its index.\<close>

definition idf_150 :: indexed_frame where
  "idf_150 =
     map (\<lambda>i. (Str (unit_name i), flat_cols 9)) [0..<99] @ [(Str (unit_name 99), flat_cols 30)]
       @ map (\<lambda>i. (Str (unit_name i), rejected_cols)) [100..<150]"

section \<open>Properties\<close>

subsection \<open>Regime filter parameters\<close>

text \<open>
  C9. For every positive integer \<open>years\<close> the regime filter derives
  \<open>min_samples = floor (years * 8760 / 1000)\<close> and
  \<open>exclusion_threshold = floor (years * 8760 / 100)\<close>; for \<open>years = 1\<close> these are 8 and 87.
\<close>

theorem filter_group_parameters:
  "0 < years \<Longrightarrow>
     filter_group_min_samples years = \<lfloor>real_of_int years * 8760 / 1000\<rfloor> \<and>
     filter_group_threshold years = \<lfloor>real_of_int years * 8760 / 100\<rfloor> \<and>
     filter_group_min_samples 1 = 8 \<and> filter_group_threshold 1 = 87"
  by (simp add: filter_group_min_samples_def filter_group_threshold_def total_points_def py_int_def)

theorem filter_group_parameters_witness:
  "(0::int) < 1 \<and> filter_group_min_samples 1 = \<lfloor>real_of_int 1 * 8760 / 1000\<rfloor> \<and>
     filter_group_threshold 1 = \<lfloor>real_of_int 1 * 8760 / 100\<rfloor> \<and> filter_group_min_samples 1 = 8 \<and> filter_group_threshold 1 = 87"
  using filter_group_parameters [of 1] by simp

subsection \<open>Minimum heat rate of a fit\<close>

lemma foldl_horner:
  "foldl (\<lambda>y pv. y * x + pv) a p = a * x ^ length p + polynomial p x"
proof (induction p rule: rev_induct)
  case Nil
  then show ?case by (simp add: polynomial_def)
next
  case (snoc c p)
  have "(\<Sum>j<length p. p ! j * x ^ (length p - j)) =
        (\<Sum>j<length p. p ! j * x ^ (length p - 1 - j) * x)"
  proof (rule sum.cong)
    fix j assume "j \<in> {..<length p}"
    then have "length p - j = Suc (length p - 1 - j)" by auto
    then show "p ! j * x ^ (length p - j) = p ! j * x ^ (length p - 1 - j) * x"
      by simp
  qed simp
  then have "polynomial (p @ [c]) x = polynomial p x * x + c"
    by (simp add: polynomial_def sum_distrib_right nth_append)
  with snoc show ?case by (simp add: algebra_simps)
qed

lemma polyval_polynomial: "polyval p x = polynomial p x"
  by (simp add: polyval_def foldl_horner)

lemma amin_Min: "xs \<noteq> [] \<Longrightarrow> amin xs = Inr (Min (set xs))"
  by (cases xs) (simp_all add: Min.set_eq_fold [symmetric])

lemma cell_values_Num: "cell_values (map Num p) = Inr p"
  by (induction p) simp_all

lemma linspace_100:
  "set (map f (linspace lo hi 100)) = (\<lambda>i. f (lo + real i * (hi - lo) / 99)) ` {0..<100}"
  by (auto simp add: linspace_def)

lemma get_hr_min_num:
  assumes "params unit = map Num p" and "map_of unit ''load_min'' = Some (Num lo)"
    and "map_of unit ''load_max'' = Some (Num hi)"
  shows "get_hr_min unit 100 =
        Inr (let m = Min ((\<lambda>i. polynomial p (lo + real i * (hi - lo) / 99)) ` {0..<100})
             in if m < 4.5 then None else Some m)"
proof -
  have "NA \<notin> set (params unit)" using assms(1) by auto
  moreover have "linspace lo hi 100 \<noteq> []" by (simp add: linspace_def)
  moreover have "(\<lambda>x. polyval p x) = polynomial p"
    by (rule ext) (rule polyval_polynomial)
  ultimately show ?thesis
    using assms linspace_100 [of "polynomial p" lo hi]
    by (simp add: get_hr_min_def cell_values_Num getitem_def amin_Min Let_def)
qed

lemma get_hr_min_missing:
  assumes "(c, NA) \<in> set unit" and "startswith c ''a''"
  shows "get_hr_min unit 100 = Inr None"
proof -
  have "NA \<in> set (params unit)"
    using assms by (force simp add: params_def)
  then show ?thesis by (simp add: get_hr_min_def)
qed

text \<open>
  C7. The minimum heat rate of a fit row is the least value of its polynomial at the
  100 evenly spaced loads \<open>load_min + i (load_max - load_min) / 99\<close>, \<open>i = 0, ..., 99\<close>;
  a least value below 4.5 is discarded (no minimum), and a row with a missing
  coefficient has no minimum.
\<close>

theorem get_hr_min_samples:
  "(params unit = map Num p \<and> map_of unit ''load_min'' = Some (Num lo) \<and>
      map_of unit ''load_max'' = Some (Num hi) \<longrightarrow>
      get_hr_min unit 100 =
        Inr (let m = Min ((\<lambda>i. polynomial p (lo + real i * (hi - lo) / 99)) ` {0..<100})
             in if m < 4.5 then None else Some m)) \<and>
   ((c, NA) \<in> set unit \<and> startswith c ''a'' \<longrightarrow> get_hr_min unit 100 = Inr None)"
  using get_hr_min_num [of unit p lo hi] get_hr_min_missing [of c unit] by blast

lemma params_flat_fit: "params (flat_fit uid c) = map Num [0, 0, 0, 0, c]"
  by (simp add: params_def flat_fit_def flat_cols_def startswith_def)

lemma polynomial_flat: "polynomial [0, 0, 0, 0, c] x = c"
  by (simp add: polynomial_def lessThan_Suc numeral_eq_Suc)

lemma image_flat: "(\<lambda>i::nat. c) ` {0..<100} = {c}"
  by (rule image_constant [of 0]) simp

theorem get_hr_min_samples_witness:
  "get_hr_min (flat_fit ''3_1'' 8) 100 = Inr (Some 8) \<and>
   get_hr_min (flat_fit ''3_2'' 4) 100 = Inr None \<and>
   get_hr_min ((''a5'', NA) # flat_fit ''3_3'' 8) 100 = Inr None"
proof -
  have m: "map_of (flat_fit uid c) ''load_min'' = Some (Num 20) \<and>
           map_of (flat_fit uid c) ''load_max'' = Some (Num 100)" for uid c
    by (simp add: flat_fit_def flat_cols_def)
  show ?thesis
    using get_hr_min_samples [of "flat_fit ''3_1'' 8" "[0, 0, 0, 0, 8]" 20 100 "''a5''"]
      get_hr_min_samples [of "flat_fit ''3_2'' 4" "[0, 0, 0, 0, 4]" 20 100 "''a5''"]
      get_hr_min_samples [of "(''a5'', NA) # flat_fit ''3_3'' 8" "[]" 0 0 "''a5''"]
    by (simp add: params_flat_fit m polynomial_flat image_flat startswith_def)
qed

subsection \<open>The band of accepted minimum heat rates\<close>

lemma min_hr_filter_band:
  "min_hr_filter min_hr k (lo, hi) =
     (let inside = filter (\<lambda>v. (case hi of None \<Rightarrow> True | Some t \<Rightarrow> v < t))
                     (filter (\<lambda>v. (case lo of None \<Rightarrow> True | Some t \<Rightarrow> v > t)) (map snd min_hr))
      in map fst (filter (\<lambda>(l, v).
            lt v (case lo of Some t \<Rightarrow> Some t
                  | None \<Rightarrow> (case (mean inside, std inside) of (Some m, Some s) \<Rightarrow> Some (m - k * s) | _ \<Rightarrow> None))
          \<or> gt v (case hi of Some t \<Rightarrow> Some t
                  | None \<Rightarrow> (case (mean inside, std inside) of (Some m, Some s) \<Rightarrow> Some (m + k * s) | _ \<Rightarrow> None)))
          min_hr))"
  by (cases lo; cases hi) (auto simp add: min_hr_filter_def Let_def std_def mean_def algebra_simps split: option.splits)

text \<open>
  C3 (amended). Without hard thresholds, and with \<open>\<mu>\<close> and \<open>\<sigma>\<close> the mean and standard
  deviation of the population, the failed units are exactly those whose minimum lies
  strictly outside \<open>[\<mu> - k \<sigma>, \<mu> + k \<sigma>]\<close>. A hard threshold replaces its band edge
  outright; the other edge is then \<open>\<mu> \<mp> k \<sigma>\<close> for the mean and standard deviation of the
  minima strictly inside the hard threshold only. With both thresholds given the band
  is the pair of thresholds.
\<close>

theorem min_hr_filter_bands:
  "(mean (map snd min_hr) = Some \<mu> \<and> std (map snd min_hr) = Some \<sigma> \<longrightarrow>
      min_hr_filter min_hr k (None, None) = outside_band min_hr (\<mu> - k * \<sigma>) (\<mu> + k * \<sigma>)) \<and>
   (mean (filter (\<lambda>v. v < hi) (map snd min_hr)) = Some \<mu> \<and>
    std (filter (\<lambda>v. v < hi) (map snd min_hr)) = Some \<sigma> \<longrightarrow>
      min_hr_filter min_hr k (None, Some hi) = outside_band min_hr (\<mu> - k * \<sigma>) hi) \<and>
   (mean (filter (\<lambda>v. v > lo) (map snd min_hr)) = Some \<mu> \<and>
    std (filter (\<lambda>v. v > lo) (map snd min_hr)) = Some \<sigma> \<longrightarrow>
      min_hr_filter min_hr k (Some lo, None) = outside_band min_hr lo (\<mu> + k * \<sigma>)) \<and>
   min_hr_filter min_hr k (Some lo, Some hi) = outside_band min_hr lo hi"
  by (simp add: min_hr_filter_band outside_band_def)

lemma sqrt_eq: "0 \<le> y \<Longrightarrow> y * y = x \<Longrightarrow> sqrt x = y"
  by (rule real_sqrt_unique) (simp_all add: power2_eq_square)

lemma sqrt_36_25: "sqrt (36 / 25) = 6 / 5"
  by (rule sqrt_eq) simp_all

lemma inside_stats:
  "mean [5, 9, 9, 9, 9, 9, 9, 9, 9, 9] = Some (43 / 5) \<and>
   std [5, 9, 9, 9, 9, 9, 9, 9, 9, 9] = Some (6 / 5)"
  by (simp add: mean_def std_def power2_eq_square sqrt_36_25)

lemma all_stats:
  "\<exists>s. mean (map snd example_min_hr) = Some (116 / 11) \<and>
       std (map snd example_min_hr) = Some s \<and> 6 < s \<and> s < 7"
proof -
  have "6 < sqrt (52118 / 1331)" by (rule real_less_rsqrt) simp
  moreover have "sqrt (52118 / 1331) < 7" by (rule real_less_lsqrt) simp_all
  moreover have "std (map snd example_min_hr) = Some (sqrt (52118 / 1331))"
    by (simp add: example_min_hr_def mean_def std_def power2_eq_square)
  moreover have "mean (map snd example_min_hr) = Some (116 / 11)"
    by (simp add: example_min_hr_def mean_def)
  ultimately show ?thesis by blast
qed

text \<open>
  With an upper threshold of 10 the lower edge is not that of the whole population:
  unit \<open>1_1\<close> fails although its minimum lies inside the band of the whole population.
\<close>

theorem min_hr_filter_bands_counterexample:
  "min_hr_filter example_min_hr 2 (None, Some 10) \<noteq>
     outside_band example_min_hr
       (the (mean (map snd example_min_hr)) - 2 * the (std (map snd example_min_hr))) 10"
proof -
  obtain s where s: "mean (map snd example_min_hr) = Some (116 / 11)"
    "std (map snd example_min_hr) = Some s" "6 < s" "s < 7"
    using all_stats by blast
  have "min_hr_filter example_min_hr 2 (None, Some 10) = [''1_1'', ''8_1'']"
    using inside_stats by (simp add: min_hr_filter_band example_min_hr_def)
  moreover have "outside_band example_min_hr (116 / 11 - 2 * s) 10 = [''8_1'']"
    using s(3,4) by (simp add: outside_band_def example_min_hr_def)
  ultimately show ?thesis using s(1,2) by simp
qed

theorem min_hr_filter_bands_witness:
  "min_hr_filter (take 10 example_min_hr) 2 (None, None) = [''1_1''] \<and>
   outside_band (take 10 example_min_hr) (43 / 5 - 2 * (6 / 5)) (43 / 5 + 2 * (6 / 5)) = [''1_1''] \<and>
   min_hr_filter example_min_hr 2 (None, Some 10) = [''1_1'', ''8_1''] \<and>
   min_hr_filter [(''1_1'', 5), (''1_2'', 7), (''1_3'', 9 :: real)] 2 (Some 6, None) = [''1_1''] \<and>
   min_hr_filter example_min_hr 2 (Some 6, Some 10) = [''1_1'', ''8_1'']"
proof -
  have "mean [7, 9] = Some 8 \<and> std [7, 9] = Some 1"
    by (simp add: mean_def std_def)
  then show ?thesis
    using inside_stats
      min_hr_filter_bands [of "take 10 example_min_hr" "43 / 5" "6 / 5" 2 10 6]
      min_hr_filter_bands [of example_min_hr "43 / 5" "6 / 5" 2 10 6]
      min_hr_filter_bands [of "[(''1_1'', 5), (''1_2'', 7), (''1_3'', 9)]" 8 1 2 10 6]
    by (simp add: example_min_hr_def outside_band_def)
qed

subsection \<open>Combined-cycle units\<close>




lemma groupby_min_keys:
  "fst ` set (groupby_min ms) = fst ` set ms - {NA}"
  by (force simp add: groupby_min_def image_iff)


lemma drop_col_flat_cc: "drop_col ''cc_id'' (flat_fit u c) = flat_fit u c"
  by (simp add: drop_col_def flat_fit_def flat_cols_def)

lemma getitem_flat_unit_id: "getitem (flat_fit u c) ''unit_id'' = Inr (Str u)"
  by (simp add: getitem_def flat_fit_def flat_cols_def)

lemma get_hr_min_flat:
  "get_hr_min (flat_fit u c) 100 = Inr (if c < 4.5 then None else Some c)"
proof -
  have "map_of (flat_fit u c) ''load_min'' = Some (Num 20)"
    and "map_of (flat_fit u c) ''load_max'' = Some (Num 100)"
    by (simp_all add: flat_fit_def flat_cols_def)
  then show ?thesis
    using get_hr_min_num [OF params_flat_fit, of u c 20 100]
    by (simp add: polynomial_flat image_flat)
qed




lemma cc_fits_index:
  "set_index_cc cc_fits = Inr [(Str ''7'', flat_fit ''7-0'' (36 / 5)),
     (Str ''7'', flat_fit ''7-1'' (89 / 10)), (Str ''8'', flat_fit ''8-0'' 12)]"
  by (simp add: set_index_cc_def cc_fits_def getitem_flat_unit_id drop_col_flat_cc)

lemma cc_fits_min_hr:
  "cc_min_hr [(Str ''7'', flat_fit ''7-0'' (36 / 5)),
     (Str ''7'', flat_fit ''7-1'' (89 / 10)), (Str ''8'', flat_fit ''8-0'' 12)]
   = Inr [(Str ''7'', 36 / 5), (Str ''8'', 12)]"
  by (simp add: cc_min_hr_def apply_hr_min_def get_hr_min_flat groupby_min_def)





subsection \<open>What rejection changes, and rejecting twice\<close>

lemma map_err_Inr:
  "map_err f xs = Inr ys \<Longrightarrow> length ys = length xs \<and> (\<forall>i<length xs. f (xs ! i) = Inr (ys ! i))"
proof (induction xs arbitrary: ys)
  case Nil
  then show ?case by simp
next
  case (Cons x xs)
  then obtain y ys' where y: "f x = Inr y" "map_err f xs = Inr ys'" "ys = y # ys'"
    by (auto split: sum.splits)
  with Cons.IH [of ys'] show ?case
    by (auto simp add: nth_Cons split: nat.splits)
qed

lemma map_of_null_row: "map_of (null_row r) c = nulled r c"
  by (induction r) (auto simp add: null_row_def nulled_def)

lemma map_of_drop_col: "map_of (drop_col k r) c = (if c = k then None else map_of r c)"
  by (induction r) (auto simp add: drop_col_def)

lemma nulled_drop_col: "nulled (drop_col k r) c = (if c = k then None else nulled r c)"
  by (simp add: nulled_def map_of_drop_col)

lemma set_index_Inr:
  assumes "set_index k df = Inr idf"
  shows "length idf = length df \<and>
         (\<forall>i<length df. map_of (df ! i) k = Some (fst (idf ! i)) \<and> snd (idf ! i) = drop_col k (df ! i))"
proof -
  note m = map_err_Inr [OF assms [unfolded set_index_def]]
  show ?thesis
  proof (intro conjI allI impI)
    show "length idf = length df" using m by simp
  next
    fix i assume "i < length df"
    then have "bind (getitem (df ! i) k) (\<lambda>l. Inr (l, drop_col k (df ! i))) = Inr (idf ! i)"
      using m by simp
    then show "map_of (df ! i) k = Some (fst (idf ! i))"
      by (cases "map_of (df ! i) k") (auto simp add: getitem_def dest: arg_cong [where f = fst])
  next
    fix i assume "i < length df"
    then have "bind (getitem (df ! i) k) (\<lambda>l. Inr (l, drop_col k (df ! i))) = Inr (idf ! i)"
      using m by simp
    then show "snd (idf ! i) = drop_col k (df ! i)"
      by (cases "map_of (df ! i) k") (auto simp add: getitem_def dest: arg_cong [where f = snd])
  qed
qed

lemma null_row_no_unit_id: "\<not> filter_col ''unit_id''"
  by (simp add: filter_col_def startswith_def)

lemma filter_units_Inr:
  assumes "filter_units group_df kw = Inr out"
  shows "\<exists>idf failed. set_index ''unit_id'' group_df = Inr idf \<and> failed_units idf kw = Inr failed \<and>
           out = reset_index ''unit_id'' (null_failed failed idf)"
  using assms
  by (cases "set_index ''unit_id'' group_df";
      cases "failed_units (projr (set_index ''unit_id'' group_df)) kw")
    (auto simp add: filter_units_def)

lemma filter_units_rows:
  assumes "set_index ''unit_id'' group_df = Inr idf" and "failed_units idf kw = Inr failed"
  shows "filter_units group_df kw = Inr (reset_index ''unit_id'' (null_failed failed idf)) \<and>
     length (reset_index ''unit_id'' (null_failed failed idf)) = length group_df \<and>
     (\<forall>i<length group_df.
        (map_of (group_df ! i) ''unit_id'' \<in> Some ` set failed \<longrightarrow>
           (\<forall>c. map_of (reset_index ''unit_id'' (null_failed failed idf) ! i) c
                  = nulled (group_df ! i) c)) \<and>
        (map_of (group_df ! i) ''unit_id'' \<notin> Some ` set failed \<longrightarrow>
           (\<forall>c. map_of (reset_index ''unit_id'' (null_failed failed idf) ! i) c
                  = map_of (group_df ! i) c)))"
proof -
  let ?out = "reset_index ''unit_id'' (null_failed failed idf)"
  note s = set_index_Inr [OF assms(1)]
  have len: "length ?out = length group_df"
    using s by (simp add: reset_index_def null_failed_def)
  have row: "\<forall>i<length group_df.
        (map_of (group_df ! i) ''unit_id'' \<in> Some ` set failed \<longrightarrow>
           (\<forall>c. map_of (?out ! i) c = nulled (group_df ! i) c)) \<and>
        (map_of (group_df ! i) ''unit_id'' \<notin> Some ` set failed \<longrightarrow>
           (\<forall>c. map_of (?out ! i) c = map_of (group_df ! i) c))"
  proof (intro allI impI)
    fix i assume i: "i < length group_df"
    obtain l r where lr: "idf ! i = (l, r)" by (cases "idf ! i")
    from s i lr have l: "map_of (group_df ! i) ''unit_id'' = Some l"
      and r: "r = drop_col ''unit_id'' (group_df ! i)" by auto
    have o: "?out ! i = (if l \<in> set failed then (''unit_id'', l) # null_row r
                        else (''unit_id'', l) # r)"
      using i s lr by (simp add: reset_index_def null_failed_def)
    show "(map_of (group_df ! i) ''unit_id'' \<in> Some ` set failed \<longrightarrow>
           (\<forall>c. map_of (?out ! i) c = nulled (group_df ! i) c)) \<and>
        (map_of (group_df ! i) ''unit_id'' \<notin> Some ` set failed \<longrightarrow>
           (\<forall>c. map_of (?out ! i) c = map_of (group_df ! i) c))"
      using l null_row_no_unit_id
      by (auto simp add: o r map_of_null_row nulled_drop_col map_of_drop_col nulled_def)
  qed
  from len row assms show ?thesis by (simp add: filter_units_def)
qed

lemma set_index_cc_Inr:
  assumes "set_index_cc df = Inr idf"
  shows "length idf = length df \<and>
         (\<forall>i<length df. bind (getitem (df ! i) ''unit_id'') cc_id = Inr (fst (idf ! i)) \<and>
            snd (idf ! i) = drop_col ''cc_id'' (df ! i))"
proof -
  note m = map_err_Inr [OF assms [unfolded set_index_cc_def]]
  show ?thesis
  proof (intro conjI allI impI)
    show "length idf = length df" using m by simp
  next
    fix i assume "i < length df"
    then have e: "bind (getitem (df ! i) ''unit_id'')
           (\<lambda>u. bind (cc_id u) (\<lambda>l. Inr (l, drop_col ''cc_id'' (df ! i)))) = Inr (idf ! i)"
      using m by simp
    then show "bind (getitem (df ! i) ''unit_id'') cc_id = Inr (fst (idf ! i))"
      by (cases "getitem (df ! i) ''unit_id''"; cases "cc_id (projr (getitem (df ! i) ''unit_id''))")
        (auto dest: arg_cong [where f = fst])
  next
    fix i assume "i < length df"
    then have e: "bind (getitem (df ! i) ''unit_id'')
           (\<lambda>u. bind (cc_id u) (\<lambda>l. Inr (l, drop_col ''cc_id'' (df ! i)))) = Inr (idf ! i)"
      using m by simp
    then show "snd (idf ! i) = drop_col ''cc_id'' (df ! i)"
      by (cases "getitem (df ! i) ''unit_id''"; cases "cc_id (projr (getitem (df ! i) ''unit_id''))")
        (auto dest: arg_cong [where f = snd])
  qed
qed

lemma filer_CCs_Inr:
  assumes "filer_CCs cc_df kw = Inr out"
  shows "\<exists>idf failed. set_index_cc cc_df = Inr idf \<and> failed_CCs idf kw = Inr failed \<and>
           out = map snd (null_failed failed idf)"
  using assms
  by (cases "set_index_cc cc_df"; cases "failed_CCs (projr (set_index_cc cc_df)) kw")
    (auto simp add: filer_CCs_def)

lemma filer_CCs_rows:
  assumes "set_index_cc cc_df = Inr idf" and "failed_CCs idf kw = Inr failed"
  shows "filer_CCs cc_df kw = Inr (map snd (null_failed failed idf)) \<and>
     length (map snd (null_failed failed idf)) = length cc_df \<and>
     (\<forall>i<length cc_df. \<forall>c. c \<noteq> ''cc_id'' \<longrightarrow>
        (bind (getitem (cc_df ! i) ''unit_id'') cc_id \<in> Inr ` set failed \<longrightarrow>
           map_of (map snd (null_failed failed idf) ! i) c = nulled (cc_df ! i) c) \<and>
        (bind (getitem (cc_df ! i) ''unit_id'') cc_id \<notin> Inr ` set failed \<longrightarrow>
           map_of (map snd (null_failed failed idf) ! i) c = map_of (cc_df ! i) c))"
proof -
  let ?out = "map snd (null_failed failed idf)"
  note s = set_index_cc_Inr [OF assms(1)]
  have len: "length ?out = length cc_df"
    using s by (simp add: null_failed_def)
  have row: "\<forall>i<length cc_df. \<forall>c. c \<noteq> ''cc_id'' \<longrightarrow>
        (bind (getitem (cc_df ! i) ''unit_id'') cc_id \<in> Inr ` set failed \<longrightarrow>
           map_of (?out ! i) c = nulled (cc_df ! i) c) \<and>
        (bind (getitem (cc_df ! i) ''unit_id'') cc_id \<notin> Inr ` set failed \<longrightarrow>
           map_of (?out ! i) c = map_of (cc_df ! i) c)"
  proof (intro allI impI)
    fix i c assume i: "i < length cc_df" and c: "c \<noteq> ''cc_id''"
    obtain l r where lr: "idf ! i = (l, r)" by (cases "idf ! i")
    from s i lr have l: "bind (getitem (cc_df ! i) ''unit_id'') cc_id = Inr l"
      and r: "r = drop_col ''cc_id'' (cc_df ! i)" by auto
    have o: "?out ! i = (if l \<in> set failed then null_row r else r)"
      using i s lr by (simp add: null_failed_def)
    show "(bind (getitem (cc_df ! i) ''unit_id'') cc_id \<in> Inr ` set failed \<longrightarrow>
           map_of (?out ! i) c = nulled (cc_df ! i) c) \<and>
        (bind (getitem (cc_df ! i) ''unit_id'') cc_id \<notin> Inr ` set failed \<longrightarrow>
           map_of (?out ! i) c = map_of (cc_df ! i) c)"
      using c by (auto simp add: l o r map_of_null_row nulled_drop_col map_of_drop_col)
  qed
  from len row assms show ?thesis by (simp add: filer_CCs_def)
qed

text \<open>
  C10. Outlier rejection keeps the number of rows. In a row of a failed unit every
  column whose name starts with \<open>a\<close>, \<open>heat_rate\<close> or \<open>load\<close>, except \<open>load_min\<close> and
  \<open>load_max\<close>, becomes missing and every other column keeps its value; a row of a unit
  that did not fail keeps the value of every column. \<open>unit_id\<close>, \<open>load_min\<close>, \<open>load_max\<close>,
  \<open>total_load\<close>, \<open>min_gen_perc\<close> and the metadata columns are among the columns that
  are never set to missing. This holds for \<^verbatim>\<open>_filter\<close> and for \<^verbatim>\<open>_filer_CCs\<close> (where the
  failed units are CC units, and \<open>cc_id\<close> is the working column of the function itself).
\<close>

theorem rejection_frame:
  "(set_index ''unit_id'' group_df = Inr idf \<and> failed_units idf kw = Inr failed \<longrightarrow>
      (\<exists>out. filter_units group_df kw = Inr out \<and> length out = length group_df \<and>
        (\<forall>i<length group_df.
           (map_of (group_df ! i) ''unit_id'' \<in> Some ` set failed \<longrightarrow>
              (\<forall>c. map_of (out ! i) c = nulled (group_df ! i) c)) \<and>
           (map_of (group_df ! i) ''unit_id'' \<notin> Some ` set failed \<longrightarrow>
              (\<forall>c. map_of (out ! i) c = map_of (group_df ! i) c))))) \<and>
   (set_index_cc cc_df = Inr idf' \<and> failed_CCs idf' kw = Inr failed' \<longrightarrow>
      (\<exists>out. filer_CCs cc_df kw = Inr out \<and> length out = length cc_df \<and>
        (\<forall>i<length cc_df. \<forall>c. c \<noteq> ''cc_id'' \<longrightarrow>
           (bind (getitem (cc_df ! i) ''unit_id'') cc_id \<in> Inr ` set failed' \<longrightarrow>
              map_of (out ! i) c = nulled (cc_df ! i) c) \<and>
           (bind (getitem (cc_df ! i) ''unit_id'') cc_id \<notin> Inr ` set failed' \<longrightarrow>
              map_of (out ! i) c = map_of (cc_df ! i) c)))) \<and>
   (filter_units group_df kw = Inr out \<longrightarrow>
      (\<exists>idf failed. set_index ''unit_id'' group_df = Inr idf \<and> failed_units idf kw = Inr failed)) \<and>
   (filer_CCs cc_df kw = Inr out' \<longrightarrow>
      (\<exists>idf failed. set_index_cc cc_df = Inr idf \<and> failed_CCs idf kw = Inr failed)) \<and>
   (\<not> filter_col c \<longrightarrow> nulled r c = map_of r c) \<and>
   list_all (\<lambda>c. \<not> filter_col c)
     ([''unit_id'', ''load_min'', ''load_max'', ''total_load'', ''min_gen_perc''] @ META_COLS)"
proof (intro conjI impI)
  assume a: "set_index ''unit_id'' group_df = Inr idf \<and> failed_units idf kw = Inr failed"
  show "\<exists>out. filter_units group_df kw = Inr out \<and> length out = length group_df \<and>
        (\<forall>i<length group_df.
           (map_of (group_df ! i) ''unit_id'' \<in> Some ` set failed \<longrightarrow>
              (\<forall>c. map_of (out ! i) c = nulled (group_df ! i) c)) \<and>
           (map_of (group_df ! i) ''unit_id'' \<notin> Some ` set failed \<longrightarrow>
              (\<forall>c. map_of (out ! i) c = map_of (group_df ! i) c)))"
    by (rule exI [of _ "reset_index ''unit_id'' (null_failed failed idf)"])
      (rule filter_units_rows [OF conjunct1 [OF a] conjunct2 [OF a]])
next
  assume a: "set_index_cc cc_df = Inr idf' \<and> failed_CCs idf' kw = Inr failed'"
  show "\<exists>out. filer_CCs cc_df kw = Inr out \<and> length out = length cc_df \<and>
        (\<forall>i<length cc_df. \<forall>c. c \<noteq> ''cc_id'' \<longrightarrow>
           (bind (getitem (cc_df ! i) ''unit_id'') cc_id \<in> Inr ` set failed' \<longrightarrow>
              map_of (out ! i) c = nulled (cc_df ! i) c) \<and>
           (bind (getitem (cc_df ! i) ''unit_id'') cc_id \<notin> Inr ` set failed' \<longrightarrow>
              map_of (out ! i) c = map_of (cc_df ! i) c))"
    by (rule exI [of _ "map snd (null_failed failed' idf')"])
      (rule filer_CCs_rows [OF conjunct1 [OF a] conjunct2 [OF a]])
next
  assume "filter_units group_df kw = Inr out"
  then show "\<exists>idf failed. set_index ''unit_id'' group_df = Inr idf \<and> failed_units idf kw = Inr failed"
    using filter_units_Inr by blast
next
  assume "filer_CCs cc_df kw = Inr out'"
  then show "\<exists>idf failed. set_index_cc cc_df = Inr idf \<and> failed_CCs idf kw = Inr failed"
    using filer_CCs_Inr by blast
next
  assume "\<not> filter_col c"
  then show "nulled r c = map_of r c" by (simp add: nulled_def)
next
  show "list_all (\<lambda>c. \<not> filter_col c)
     ([''unit_id'', ''load_min'', ''load_max'', ''total_load'', ''min_gen_perc''] @ META_COLS)"
    by (simp add: META_COLS_def filter_col_def startswith_def)
qed

lemma drop_unit_id_flat: "drop_col ''unit_id'' (flat_fit u c) = flat_cols c"
  by (simp add: drop_col_def flat_fit_def flat_cols_def)

lemma drop_unit_id_rejected: "drop_col ''unit_id'' (rejected_fit u) = rejected_cols"
  by (simp add: drop_col_def rejected_fit_def rejected_cols_def)

lemma getitem_rejected_unit_id: "getitem (rejected_fit u) ''unit_id'' = Inr (Str u)"
  by (simp add: getitem_def rejected_fit_def)

lemma get_hr_min_flat_cols:
  "get_hr_min (flat_cols c) 100 = Inr (if c < 4.5 then None else Some c)"
proof -
  have "params (flat_cols c) = map Num [0, 0, 0, 0, c]"
    by (simp add: params_def flat_cols_def startswith_def)
  moreover have "map_of (flat_cols c) ''load_min'' = Some (Num 20)"
    and "map_of (flat_cols c) ''load_max'' = Some (Num 100)"
    by (simp_all add: flat_cols_def)
  ultimately show ?thesis
    using get_hr_min_num [of "flat_cols c" "[0, 0, 0, 0, c]" 20 100]
    by (simp add: polynomial_flat image_flat)
qed

lemma get_hr_min_rejected_cols: "get_hr_min rejected_cols 100 = Inr None"
  by (rule get_hr_min_missing [of "''a0''"]) (simp_all add: rejected_cols_def startswith_def)

lemma null_row_flat_cols: "null_row (flat_cols c) = rejected_cols"
  by (simp add: null_row_def flat_cols_def rejected_cols_def filter_col_def startswith_def)

lemma null_row_rejected_cols: "null_row rejected_cols = rejected_cols"
  by (simp add: null_row_def rejected_cols_def filter_col_def startswith_def)

lemmas example_rows = drop_unit_id_flat drop_unit_id_rejected getitem_flat_unit_id
  getitem_rejected_unit_id get_hr_min_flat_cols get_hr_min_rejected_cols
  null_row_flat_cols null_row_rejected_cols

lemma kw_defaults:
  "kw_threshold no_kwargs = None" "kw_cut_off no_kwargs = None"
  "cut_off_of no_kwargs = 9" "stdev_multiplier_of no_kwargs = 2"
  "threshold_of no_kwargs = (None, None)"
  by (simp_all add: no_kwargs_def cut_off_of_def stdev_multiplier_of_def threshold_of_def)

lemma example_fits_index:
  "set_index ''unit_id'' example_fits = Inr (map (\<lambda>(u, c). (Str u, flat_cols c)) example_min_hr)"
  by (simp add: set_index_def example_fits_def example_min_hr_def example_rows)

lemma example_fits_failed:
  "failed_units (map (\<lambda>(u, c). (Str u, flat_cols c)) example_min_hr) no_kwargs = Inr [Str ''8_1'']"
proof -
  obtain s where s: "mean (map snd example_min_hr) = Some (116 / 11)"
    "std (map snd example_min_hr) = Some s" "6 < s" "s < 7"
    using all_stats by blast
  have "apply_hr_min (map (\<lambda>(u, c). (Str u, flat_cols c)) example_min_hr)
     = Inr (map (\<lambda>(u, c). (Str u, c)) example_min_hr)"
    by (simp add: apply_hr_min_def example_min_hr_def example_rows)
  moreover have "map snd (map (\<lambda>(u, c). (Str u, c)) example_min_hr) = map snd example_min_hr"
    by (simp add: example_min_hr_def)
  ultimately show ?thesis
    using s by (simp add: failed_units_def kw_defaults min_hr_filter_band)
      (simp add: example_min_hr_def)
qed

lemma example_fits_filtered: "filter_units example_fits no_kwargs = Inr example_fits_once"
  by (simp add: filter_units_def example_fits_index example_fits_failed)
    (simp add: example_min_hr_def example_fits_once_def reset_index_def null_failed_def
      example_rows flat_fit_def rejected_fit_def)

lemma example_once_index:
  "set_index ''unit_id'' example_fits_once =
     Inr (map (\<lambda>(u, c). (Str u, flat_cols c)) (butlast example_min_hr) @ [(Str ''8_1'', rejected_cols)])"
  by (simp add: set_index_def example_fits_once_def example_min_hr_def example_rows)

lemma example_once_failed:
  "failed_units (map (\<lambda>(u, c). (Str u, flat_cols c)) (butlast example_min_hr)
       @ [(Str ''8_1'', rejected_cols)]) no_kwargs = Inr [Str ''1_1'']"
proof -
  have "apply_hr_min (map (\<lambda>(u, c). (Str u, flat_cols c)) (butlast example_min_hr)
       @ [(Str ''8_1'', rejected_cols)])
     = Inr (map (\<lambda>(u, c). (Str u, c)) (butlast example_min_hr))"
    by (simp add: apply_hr_min_def example_min_hr_def example_rows)
  then show ?thesis
    using inside_stats by (simp add: failed_units_def kw_defaults min_hr_filter_band example_min_hr_def)
qed

lemma example_once_filtered: "filter_units example_fits_once no_kwargs = Inr example_fits_twice"
  by (simp add: filter_units_def example_once_index example_once_failed)
    (simp add: example_min_hr_def example_fits_twice_def reset_index_def null_failed_def
      example_rows flat_fit_def rejected_fit_def)

lemma getitem_a0: "getitem (flat_fit u c) ''a0'' = Inr (Num c)" "getitem (rejected_fit u) ''a0'' = Inr NA"
  by (simp_all add: getitem_def flat_fit_def flat_cols_def rejected_fit_def rejected_cols_def)

lemma example_fit_units:
  "fit_units example_fits = Inr 11" "fit_units example_fits_once = Inr 10"
  by (simp_all add: fit_units_def example_fits_def example_fits_once_def example_min_hr_def getitem_a0)

text \<open>
  Rejection is not idempotent: with the default multiplier 2 and \<open>min_units = 5\<close>, the
  first application rejects unit \<open>8_1\<close>, and the second, on the result of the first,
  rejects unit \<open>1_1\<close> as well, because the band is taken anew from the ten fits left.
\<close>

theorem rejection_twice_counterexample:
  "filter_fits [(''CT (NG)'', example_fits)] 5 no_kwargs = Inr [(''CT (NG)'', example_fits_once)] \<and>
   filter_fits [(''CT (NG)'', example_fits_once)] 5 no_kwargs
     = Inr [(''CT (NG)'', example_fits_twice)] \<and>
   example_fits_once \<noteq> example_fits_twice"
proof -
  have "\<not> contains ''CT (NG)'' ''CC''" by (simp add: startswith_def)
  moreover have "example_fits_once \<noteq> example_fits_twice"
    by (simp add: example_fits_once_def example_fits_twice_def example_min_hr_def
        flat_fit_def rejected_fit_def flat_cols_def rejected_cols_def)
  ultimately show ?thesis
    by (simp add: filter_fits_def filter_group_fits_def example_fit_units
        example_fits_filtered example_once_filtered)
qed

lemma map_err_eq_Inr:
  "length ys = length xs \<Longrightarrow> (\<And>i. i < length xs \<Longrightarrow> f (xs ! i) = Inr (ys ! i))
     \<Longrightarrow> map_err f xs = Inr ys"
proof (induction xs arbitrary: ys)
  case Nil
  then show ?case by simp
next
  case (Cons x xs)
  then obtain y ys' where ys: "ys = y # ys'" by (cases ys) auto
  have "f x = Inr y" using Cons.prems(2) [of 0] ys by simp
  moreover have "map_err f xs = Inr ys'"
  proof (rule Cons.IH)
    show "length ys' = length xs" using Cons.prems(1) ys by simp
  next
    fix i assume "i < length xs"
    then show "f (xs ! i) = Inr (ys' ! i)" using Cons.prems(2) [of "Suc i"] ys by simp
  qed
  ultimately show ?case by (simp add: ys)
qed

lemma null_row_idem: "null_row (null_row r) = null_row r"
  by (induction r) (auto simp add: null_row_def)

lemma drop_col_idem: "drop_col k (drop_col k r) = drop_col k r"
  by (simp add: drop_col_def)

lemma drop_col_null_row: "drop_col k (null_row r) = null_row (drop_col k r)"
  by (induction r) (auto simp add: drop_col_def null_row_def split: if_splits)

lemma set_index_reset:
  assumes "set_index ''unit_id'' df = Inr idf"
  shows "set_index ''unit_id'' (reset_index ''unit_id'' (null_failed failed idf))
         = Inr (null_failed failed idf)"
  unfolding set_index_def
proof (rule map_err_eq_Inr)
  show "length (null_failed failed idf) = length (reset_index ''unit_id'' (null_failed failed idf))"
    by (simp add: reset_index_def)
next
  fix i assume "i < length (reset_index ''unit_id'' (null_failed failed idf))"
  then have i: "i < length idf" by (simp add: reset_index_def null_failed_def)
  then have "i < length df" using set_index_Inr [OF assms] by simp
  then have r: "snd (idf ! i) = drop_col ''unit_id'' (df ! i)"
    using set_index_Inr [OF assms] by simp
  obtain l r where lr: "idf ! i = (l, r)" by (cases "idf ! i")
  have "drop_col ''unit_id'' r = r" using r lr by (simp add: drop_col_idem)
  then have "drop_col ''unit_id'' (null_row r) = null_row r" by (simp add: drop_col_null_row)
  with \<open>drop_col ''unit_id'' r = r\<close> show "bind (getitem (reset_index ''unit_id'' (null_failed failed idf) ! i) ''unit_id'')
          (\<lambda>l. Inr (l, drop_col ''unit_id'' (reset_index ''unit_id'' (null_failed failed idf) ! i)))
        = Inr (null_failed failed idf ! i)"
    using i lr
    by (simp add: reset_index_def null_failed_def getitem_def)
      (simp add: drop_col_def)
qed

lemma getitem_null_row_unit_id: "getitem (null_row r) ''unit_id'' = getitem r ''unit_id''"
  using null_row_no_unit_id by (simp add: getitem_def map_of_null_row nulled_def)

lemma getitem_drop_cc_unit_id: "getitem (drop_col ''cc_id'' r) ''unit_id'' = getitem r ''unit_id''"
  by (simp add: getitem_def map_of_drop_col)

lemma set_index_cc_reset:
  assumes "set_index_cc df = Inr idf"
  shows "set_index_cc (map snd (null_failed failed idf)) = Inr (null_failed failed idf)"
  unfolding set_index_cc_def
proof (rule map_err_eq_Inr)
  show "length (null_failed failed idf) = length (map snd (null_failed failed idf))"
    by simp
next
  fix i assume "i < length (map snd (null_failed failed idf))"
  then have i: "i < length idf" by (simp add: null_failed_def)
  then have d: "i < length df" using set_index_cc_Inr [OF assms] by simp
  obtain l r where lr: "idf ! i = (l, r)" by (cases "idf ! i")
  have r: "r = drop_col ''cc_id'' (df ! i)"
    and l: "bind (getitem (df ! i) ''unit_id'') cc_id = Inr l"
    using set_index_cc_Inr [OF assms] d lr by auto
  have r1: "drop_col ''cc_id'' r = r" using r by (simp add: drop_col_idem)
  then have r2: "drop_col ''cc_id'' (null_row r) = null_row r" by (simp add: drop_col_null_row)
  have g: "bind (getitem r ''unit_id'') cc_id = Inr l"
    using l by (simp add: r getitem_drop_cc_unit_id)
  show "bind (getitem (map snd (null_failed failed idf) ! i) ''unit_id'')
          (\<lambda>u. bind (cc_id u)
             (\<lambda>l. Inr (l, drop_col ''cc_id'' (map snd (null_failed failed idf) ! i))))
        = Inr (null_failed failed idf ! i)"
  proof (cases "getitem r ''unit_id''")
    case (Inl e)
    then show ?thesis using g by simp
  next
    case (Inr u)
    then show ?thesis
      using i lr g r1 r2 by (simp add: null_failed_def getitem_null_row_unit_id)
  qed
qed

lemma fit_units_Inr:
  "(\<exists>n. fit_units df = Inr n) \<longleftrightarrow> (\<forall>i<length df. map_of (df ! i) ''a0'' \<noteq> None)"
proof
  assume "\<exists>n. fit_units df = Inr n"
  then obtain a0 where "map_err (\<lambda>r. getitem r ''a0'') df = Inr a0"
    by (cases "map_err (\<lambda>r. getitem r ''a0'') df") (auto simp add: fit_units_def)
  from map_err_Inr [OF this] show "\<forall>i<length df. map_of (df ! i) ''a0'' \<noteq> None"
    by (auto simp add: getitem_def split: option.splits)
next
  assume a: "\<forall>i<length df. map_of (df ! i) ''a0'' \<noteq> None"
  have "map_err (\<lambda>r. getitem r ''a0'') df = Inr (map (\<lambda>r. the (map_of r ''a0'')) df)"
    by (rule map_err_eq_Inr) (use a in \<open>auto simp add: getitem_def split: option.splits\<close>)
  then show "\<exists>n. fit_units df = Inr n" by (simp add: fit_units_def)
qed

lemma filter_units_a0:
  assumes idf: "set_index ''unit_id'' df = Inr idf" and f: "failed_units idf kw = Inr fl"
    and a0: "\<forall>i<length df. map_of (df ! i) ''a0'' \<noteq> None"
  shows "\<forall>i<length (reset_index ''unit_id'' (null_failed fl idf)).
           map_of (reset_index ''unit_id'' (null_failed fl idf) ! i) ''a0'' \<noteq> None"
proof (intro allI impI)
  let ?out = "reset_index ''unit_id'' (null_failed fl idf)"
  fix i assume "i < length ?out"
  note R = filter_units_rows [OF idf f]
  have len: "length ?out = length df" by (rule conjunct1 [OF conjunct2 [OF R]])
  with \<open>i < length ?out\<close> have i: "i < length df" by simp
  note Ri = conjunct2 [OF conjunct2 [OF R], rule_format, OF i]
  show "map_of (?out ! i) ''a0'' \<noteq> None"
  proof (cases "map_of (df ! i) ''unit_id'' \<in> Some ` set fl")
    case True
    then have "map_of (?out ! i) ''a0'' = nulled (df ! i) ''a0''"
      using conjunct1 [OF Ri] by blast
    moreover have "nulled (df ! i) ''a0'' \<noteq> None"
      using a0 i by (auto simp add: nulled_def)
    ultimately show ?thesis by simp
  next
    case False
    then have "map_of (?out ! i) ''a0'' = map_of (df ! i) ''a0''"
      using conjunct2 [OF Ri] by blast
    then show ?thesis using a0 i by simp
  qed
qed

lemma filer_CCs_a0:
  assumes idf: "set_index_cc df = Inr idf" and f: "failed_CCs idf kw = Inr fl"
    and a0: "\<forall>i<length df. map_of (df ! i) ''a0'' \<noteq> None"
  shows "\<forall>i<length (map snd (null_failed fl idf)).
           map_of (map snd (null_failed fl idf) ! i) ''a0'' \<noteq> None"
proof (intro allI impI)
  let ?out = "map snd (null_failed fl idf)"
  fix i assume "i < length ?out"
  note R = filer_CCs_rows [OF idf f]
  have len: "length ?out = length df" by (rule conjunct1 [OF conjunct2 [OF R]])
  with \<open>i < length ?out\<close> have i: "i < length df" by simp
  have ne: "''a0'' \<noteq> ''cc_id''" by simp
  note Ri = conjunct2 [OF conjunct2 [OF R], rule_format, OF i ne]
  show "map_of (?out ! i) ''a0'' \<noteq> None"
  proof (cases "bind (getitem (df ! i) ''unit_id'') cc_id \<in> Inr ` set fl")
    case True
    then have "map_of (?out ! i) ''a0'' = nulled (df ! i) ''a0''"
      using conjunct1 [OF Ri] by blast
    moreover have "nulled (df ! i) ''a0'' \<noteq> None"
      using a0 i by (auto simp add: nulled_def)
    ultimately show ?thesis by simp
  next
    case False
    then have "map_of (?out ! i) ''a0'' = map_of (df ! i) ''a0''"
      using conjunct2 [OF Ri] by blast
    then show ?thesis using a0 i by simp
  qed
qed

lemma startswith_a_filter_col: "startswith c ''a'' \<Longrightarrow> filter_col c"
  by (auto simp add: filter_col_def startswith_def)

lemma params_null_row: "params (null_row r) = map (\<lambda>v. NA) (params r)"
  by (induction r) (auto simp add: params_def null_row_def startswith_a_filter_col split: if_splits)

lemma getitem_null_row: "\<not> filter_col c \<Longrightarrow> getitem (null_row r) c = getitem r c"
  by (simp add: getitem_def map_of_null_row nulled_def)

lemma amin_zeros: "amin (map (\<lambda>x. 0) (linspace lo hi 100)) = Inr 0"
proof -
  have "linspace lo hi 100 \<noteq> []" by (simp add: linspace_def)
  then have "amin (map (\<lambda>x. 0::real) (linspace lo hi 100))
      = Inr (Min (set (map (\<lambda>x. 0::real) (linspace lo hi 100))))"
    by (intro amin_Min) simp
  moreover have "set (map (\<lambda>x. 0::real) (linspace lo hi 100)) = {0}"
    using \<open>linspace lo hi 100 \<noteq> []\<close> by (cases "linspace lo hi 100") auto
  ultimately show ?thesis by simp
qed

lemma get_hr_min_no_params: "params r = [] \<Longrightarrow> get_hr_min r 100 \<noteq> Inr (Some v)"
proof -
  assume p: "params r = []"
  have z: "polyval [] = (\<lambda>x. 0)" by (simp add: polyval_def fun_eq_iff)
  show ?thesis
  proof (cases "getitem r ''load_min''")
    case (Inl e) then show ?thesis by (simp add: get_hr_min_def p)
  next
    case lmin: (Inr a)
    show ?thesis
    proof (cases "getitem r ''load_max''")
      case (Inl e) then show ?thesis by (simp add: get_hr_min_def p lmin)
    next
      case lmax: (Inr b)
      show ?thesis
        by (cases a; cases b) (simp_all add: get_hr_min_def p lmin lmax z amin_zeros)
    qed
  qed
qed

lemma get_hr_min_null_row:
  assumes "get_hr_min r 100 = Inr m"
  shows "get_hr_min (null_row r) 100 = Inr None"
proof (cases "params r = []")
  case True
  have nf: "\<not> filter_col ''load_min''" "\<not> filter_col ''load_max''"
    by (simp_all add: filter_col_def)
  have "get_hr_min (null_row r) 100 = get_hr_min r 100"
    by (simp add: get_hr_min_def params_null_row True getitem_null_row nf)
  moreover have "m = None"
    using get_hr_min_no_params [OF True] assms by (cases m) auto
  ultimately show ?thesis using assms by simp
next
  case False
  then have "NA \<in> set (params (null_row r))"
    by (cases "params r") (simp_all add: params_null_row)
  then show ?thesis by (simp add: get_hr_min_def)
qed

lemma apply_hr_min_Cons:
  "apply_hr_min ((l, r) # idf) =
     bind (get_hr_min r 100) (\<lambda>m. bind (apply_hr_min idf) (\<lambda>ms.
       Inr ((case m of None \<Rightarrow> [] | Some v \<Rightarrow> [(l, v)]) @ ms)))"
  by (cases "get_hr_min r 100";
      cases "map_err (\<lambda>(l, r). bind (get_hr_min r 100) (\<lambda>m. Inr (l, m))) idf")
    (simp_all add: apply_hr_min_def)

lemma apply_hr_min_Nil: "apply_hr_min [] = Inr []"
  by (simp add: apply_hr_min_def)

lemma null_failed_Cons:
  "null_failed f ((l, r) # idf) = (if l \<in> set f then (l, null_row r) else (l, r)) # null_failed f idf"
  by (simp add: null_failed_def)

lemma apply_hr_min_null_failed:
  "apply_hr_min idf = Inr ms \<Longrightarrow>
     apply_hr_min (null_failed f idf) = Inr (filter (\<lambda>(l, v). l \<notin> set f) ms)"
proof (induction idf arbitrary: ms)
  case Nil
  then show ?case by (simp add: apply_hr_min_Nil null_failed_def)
next
  case (Cons a idf)
  obtain l r where a: "a = (l, r)" by (cases a)
  from Cons.prems obtain m ms' where m: "get_hr_min r 100 = Inr m"
    and ms': "apply_hr_min idf = Inr ms'"
    and ms: "ms = (case m of None \<Rightarrow> [] | Some v \<Rightarrow> [(l, v)]) @ ms'"
    unfolding a apply_hr_min_Cons
    by (cases "get_hr_min r 100"; cases "apply_hr_min idf") auto
  note IH = Cons.IH [OF ms']
  show ?case
  proof (cases "l \<in> set f")
    case True
    then show ?thesis
      using IH get_hr_min_null_row [OF m]
      by (cases m) (simp_all add: a null_failed_Cons apply_hr_min_Cons ms)
  next
    case False
    then show ?thesis
      using IH m by (cases m) (simp_all add: a null_failed_Cons apply_hr_min_Cons ms)
  qed
qed

lemma apply_hr_min_row:
  "apply_hr_min idf = Inr ms \<Longrightarrow> (l, v) \<in> set ms \<Longrightarrow>
     \<exists>i<length idf. fst (idf ! i) = l \<and> get_hr_min (snd (idf ! i)) 100 = Inr (Some v)"
proof (induction idf arbitrary: ms)
  case Nil
  then show ?case by (simp add: apply_hr_min_Nil)
next
  case (Cons a idf)
  obtain l' r where a: "a = (l', r)" by (cases a)
  from Cons.prems(1) obtain m ms' where m: "get_hr_min r 100 = Inr m"
    and ms': "apply_hr_min idf = Inr ms'"
    and ms: "ms = (case m of None \<Rightarrow> [] | Some v \<Rightarrow> [(l', v)]) @ ms'"
    unfolding a apply_hr_min_Cons
    by (cases "get_hr_min r 100"; cases "apply_hr_min idf") auto
  show ?case
  proof (cases "(l, v) \<in> set ms'")
    case True
    from Cons.IH [OF ms' True] obtain i where "i < length idf" "fst (idf ! i) = l"
      "get_hr_min (snd (idf ! i)) 100 = Inr (Some v)" by blast
    then have "Suc i < length (a # idf) \<and> fst ((a # idf) ! Suc i) = l \<and>
      get_hr_min (snd ((a # idf) ! Suc i)) 100 = Inr (Some v)" by simp
    then show ?thesis by blast
  next
    case False
    then have "m = Some v \<and> l' = l" using Cons.prems(2) ms by (cases m) auto
    then have "0 < length (a # idf) \<and> fst ((a # idf) ! 0) = l \<and>
      get_hr_min (snd ((a # idf) ! 0)) 100 = Inr (Some v)" using m a by simp
    then show ?thesis by blast
  qed
qed

lemma min_hr_filter_labels: "set (min_hr_filter mh k t) \<subseteq> fst ` set mh"
  by (auto simp add: min_hr_filter_def Let_def)

lemma null_failed_Nil: "null_failed [] idf = idf"
  by (induction idf) (auto simp add: null_failed_def)

lemma null_failed_nth:
  "i < length idf \<Longrightarrow> null_failed f idf ! i =
     (if fst (idf ! i) \<in> set f then (fst (idf ! i), null_row (snd (idf ! i))) else idf ! i)"
  by (cases "idf ! i") (simp add: null_failed_def)

lemma length_null_failed: "length (null_failed f idf) = length idf"
  by (simp add: null_failed_def)

lemma second_pass:
  fixes g :: "cell \<times> row \<Rightarrow> row"
  assumes g: "\<forall>l r. g (l, null_row r) = null_row (g (l, r))"
    and inj: "\<forall>l r r'. g (l, r) = g (l, r') \<longrightarrow> r = r'"
    and ap: "apply_hr_min idf = Inr ms"
    and f': "set f' \<subseteq> fst ` set (filter (\<lambda>(l, v). l \<notin> set f) ms)"
  shows "length (map g (null_failed f' (null_failed f idf))) = length (map g (null_failed f idf))"
    and "\<forall>i<length (map g (null_failed f idf)).
           null_row (map g (null_failed f idf) ! i) = map g (null_failed f idf) ! i \<longrightarrow>
           map g (null_failed f' (null_failed f idf)) ! i = map g (null_failed f idf) ! i"
    and "map g (null_failed f' (null_failed f idf)) = map g (null_failed f idf) \<longleftrightarrow> f' = []"
    and "set f \<inter> set f' = {}"
    and "\<forall>i<length idf. fst (idf ! i) \<in> set f \<longrightarrow>
           null_row (map g (null_failed f idf) ! i) = map g (null_failed f idf) ! i"
proof -
  let ?idf1 = "null_failed f idf"
  let ?out = "map g ?idf1"
  let ?out2 = "map g (null_failed f' ?idf1)"
  show "length ?out2 = length ?out" by (simp add: length_null_failed)
  have row2: "?out2 ! i = (if fst (?idf1 ! i) \<in> set f' then null_row (?out ! i) else ?out ! i)"
    if "i < length idf" for i
  proof -
    have i1: "i < length ?idf1" using that by (simp add: length_null_failed)
    obtain l r where lr: "?idf1 ! i = (l, r)" by (cases "?idf1 ! i")
    show ?thesis
      using i1 that lr by (simp add: length_null_failed null_failed_nth [OF i1] g)
  qed
  show "\<forall>i<length ?out. null_row (?out ! i) = ?out ! i \<longrightarrow> ?out2 ! i = ?out ! i"
    using row2 by (simp add: length_null_failed)
  show d: "set f \<inter> set f' = {}" using f' by auto
  show "\<forall>i<length idf. fst (idf ! i) \<in> set f \<longrightarrow> null_row (?out ! i) = ?out ! i"
  proof (intro allI impI)
    fix i assume i: "i < length idf" and l: "fst (idf ! i) \<in> set f"
    have "?out ! i = g (fst (idf ! i), null_row (snd (idf ! i)))"
      using i l by (simp add: length_null_failed null_failed_nth)
    then show "null_row (?out ! i) = ?out ! i"
      by (simp add: g null_row_idem)
  qed
  show "?out2 = ?out \<longleftrightarrow> f' = []"
  proof
    assume "f' = []"
    then show "?out2 = ?out" by (simp add: null_failed_Nil)
  next
    assume eq: "?out2 = ?out"
    show "f' = []"
    proof (rule ccontr)
      assume "f' \<noteq> []"
      then obtain l where l: "l \<in> set f'" by (cases f') auto
      then obtain v where v: "(l, v) \<in> set ms" and nf: "l \<notin> set f" using f' by auto
      from apply_hr_min_row [OF ap v] obtain i where i: "i < length idf"
        and li: "fst (idf ! i) = l" and m: "get_hr_min (snd (idf ! i)) 100 = Inr (Some v)"
        by blast
      have 1: "?idf1 ! i = idf ! i" using i li nf by (simp add: null_failed_nth)
      have "?out ! i = g (l, snd (idf ! i))"
        using i 1 li by (cases "idf ! i") (simp add: length_null_failed)
      moreover have "?out2 ! i = null_row (?out ! i)"
        using row2 [OF i] 1 li l by simp
      ultimately have "g (l, null_row (snd (idf ! i))) = g (l, snd (idf ! i))"
        using eq by (simp add: g)
      then have "null_row (snd (idf ! i)) = snd (idf ! i)" using inj by blast
      then show False using get_hr_min_null_row [OF m] m by simp
    qed
  qed
qed


lemma failed_units_Inr:
  assumes "failed_units idf kw = Inr fl"
  shows "\<exists>ms. apply_hr_min idf = Inr ms \<and> kw_cut_off kw = None \<and>
           fl = min_hr_filter ms (stdev_multiplier_of kw) (threshold_of kw)"
  using assms by (cases "apply_hr_min idf") (auto simp add: failed_units_def split: if_splits)

lemma failed_CCs_Inr:
  assumes "failed_CCs idf kw = Inr fl"
  shows "\<exists>ms. apply_hr_min idf = Inr ms \<and> kw_threshold kw = None \<and>
           fl = min_hr_filter (groupby_min ms) (stdev_multiplier_of kw) (None, Some (cut_off_of kw))"
  using assms
  by (cases "apply_hr_min idf"; cases "kw_threshold kw")
    (auto simp add: failed_CCs_def cc_min_hr_def Let_def split: if_splits)

lemma filter_units_twice:
  assumes "filter_units df kw = Inr out"
  shows "\<exists>out2 fl f'. filter_units out kw = Inr out2 \<and>
      bind (set_index ''unit_id'' df) (\<lambda>idf. failed_units idf kw) = Inr fl \<and>
      bind (set_index ''unit_id'' out) (\<lambda>idf. failed_units idf kw) = Inr f' \<and>
      length out2 = length out \<and>
      (\<forall>i<length out. null_row (out ! i) = out ! i \<longrightarrow> out2 ! i = out ! i) \<and>
      (out2 = out \<longleftrightarrow> f' = []) \<and> set fl \<inter> set f' = {} \<and>
      (\<forall>i<length df. getitem (df ! i) ''unit_id'' \<in> Inr ` set fl \<longrightarrow>
         null_row (out ! i) = out ! i)"
proof -
  let ?g = "\<lambda>(l, r). (''unit_id'', l) # r"
  obtain idf fl where idf: "set_index ''unit_id'' df = Inr idf"
    and fl: "failed_units idf kw = Inr fl"
    and out: "out = map ?g (null_failed fl idf)"
    using filter_units_Inr [OF assms] by (auto simp add: reset_index_def)
  obtain ms where ap: "apply_hr_min idf = Inr ms" and kw: "kw_cut_off kw = None"
    and fl_eq: "fl = min_hr_filter ms (stdev_multiplier_of kw) (threshold_of kw)"
    using failed_units_Inr [OF fl] by blast
  let ?f' = "min_hr_filter (filter (\<lambda>(l, v). l \<notin> set fl) ms) (stdev_multiplier_of kw) (threshold_of kw)"
  let ?out2 = "map ?g (null_failed ?f' (null_failed fl idf))"
  have i2: "set_index ''unit_id'' out = Inr (null_failed fl idf)"
    using set_index_reset [OF idf, of fl] by (simp add: out reset_index_def)
  have f2: "failed_units (null_failed fl idf) kw = Inr ?f'"
    by (simp add: failed_units_def apply_hr_min_null_failed [OF ap] kw)
  have sub: "set ?f' \<subseteq> fst ` set (filter (\<lambda>(l, v). l \<notin> set fl) ms)"
    by (rule min_hr_filter_labels)
  have g1: "\<forall>l r. ?g (l, null_row r) = null_row (?g (l, r))"
    using null_row_no_unit_id by (simp add: null_row_def)
  have g2: "\<forall>l r r'. ?g (l, r) = ?g (l, r') \<longrightarrow> r = r'"
    by simp
  note P = second_pass [of ?g, OF g1 g2 ap sub]
  have 1: "filter_units out kw = Inr ?out2"
    by (simp add: filter_units_def i2 f2 reset_index_def)
  have 2: "bind (set_index ''unit_id'' df) (\<lambda>idf. failed_units idf kw) = Inr fl"
    by (simp add: idf fl)
  have 3: "bind (set_index ''unit_id'' out) (\<lambda>idf. failed_units idf kw) = Inr ?f'"
    by (simp add: i2 f2)
  have 4: "length ?out2 = length out" unfolding out by (rule P(1))
  have 5: "\<forall>i<length out. null_row (out ! i) = out ! i \<longrightarrow> ?out2 ! i = out ! i"
    unfolding out by (rule P(2))
  have 6: "?out2 = out \<longleftrightarrow> ?f' = []" unfolding out by (rule P(3))
  have 7: "set fl \<inter> set ?f' = {}" by (rule P(4))
  have 8: "\<forall>i<length df. getitem (df ! i) ''unit_id'' \<in> Inr ` set fl \<longrightarrow>
         null_row (out ! i) = out ! i"
  proof (intro allI impI)
    fix i assume i: "i < length df" and l: "getitem (df ! i) ''unit_id'' \<in> Inr ` set fl"
    from set_index_Inr [OF idf] i have "length idf = length df"
      and "map_of (df ! i) ''unit_id'' = Some (fst (idf ! i))" by simp_all
    then have "i < length idf" and "fst (idf ! i) \<in> set fl"
      using i l by (auto simp add: getitem_def)
    then show "null_row (out ! i) = out ! i"
      unfolding out using P(5) by blast
  qed
  from 1 2 3 4 5 6 7 8 show ?thesis by blast
qed

lemma filer_CCs_twice:
  assumes "filer_CCs df kw = Inr out"
  shows "\<exists>out2 fl f'. filer_CCs out kw = Inr out2 \<and>
      bind (set_index_cc df) (\<lambda>idf. failed_CCs idf kw) = Inr fl \<and>
      bind (set_index_cc out) (\<lambda>idf. failed_CCs idf kw) = Inr f' \<and>
      length out2 = length out \<and>
      (\<forall>i<length out. null_row (out ! i) = out ! i \<longrightarrow> out2 ! i = out ! i) \<and>
      (out2 = out \<longleftrightarrow> f' = []) \<and> set fl \<inter> set f' = {} \<and>
      (\<forall>i<length df. bind (getitem (df ! i) ''unit_id'') cc_id \<in> Inr ` set fl \<longrightarrow>
         null_row (out ! i) = out ! i)"
proof -
  obtain idf fl where idf: "set_index_cc df = Inr idf"
    and fl: "failed_CCs idf kw = Inr fl"
    and out: "out = map snd (null_failed fl idf)"
    using filer_CCs_Inr [OF assms] by auto
  obtain ms where ap: "apply_hr_min idf = Inr ms" and kw: "kw_threshold kw = None"
    and fl_eq: "fl = min_hr_filter (groupby_min ms) (stdev_multiplier_of kw) (None, Some (cut_off_of kw))"
    using failed_CCs_Inr [OF fl] by blast
  let ?f' = "min_hr_filter (groupby_min (filter (\<lambda>(l, v). l \<notin> set fl) ms))
      (stdev_multiplier_of kw) (None, Some (cut_off_of kw))"
  let ?out2 = "map snd (null_failed ?f' (null_failed fl idf))"
  have i2: "set_index_cc out = Inr (null_failed fl idf)"
    using set_index_cc_reset [OF idf, of fl] by (simp add: out)
  have f2: "failed_CCs (null_failed fl idf) kw = Inr ?f'"
    by (simp add: failed_CCs_def cc_min_hr_def apply_hr_min_null_failed [OF ap] kw)
  have "set ?f' \<subseteq> fst ` set (groupby_min (filter (\<lambda>(l, v). l \<notin> set fl) ms))"
    by (rule min_hr_filter_labels)
  then have sub: "set ?f' \<subseteq> fst ` set (filter (\<lambda>(l, v). l \<notin> set fl) ms)"
    unfolding groupby_min_keys by blast
  have g1: "\<forall>(l::cell) r. snd (l, null_row r) = null_row (snd (l, r))"
    by simp
  have g2: "\<forall>(l::cell) (r::row) r'. snd (l, r) = snd (l, r') \<longrightarrow> r = r'"
    by simp
  note P = second_pass [of snd, OF g1 g2 ap sub]
  have 1: "filer_CCs out kw = Inr ?out2"
    by (simp add: filer_CCs_def i2 f2)
  have 2: "bind (set_index_cc df) (\<lambda>idf. failed_CCs idf kw) = Inr fl"
    by (simp add: idf fl)
  have 3: "bind (set_index_cc out) (\<lambda>idf. failed_CCs idf kw) = Inr ?f'"
    by (simp add: i2 f2)
  have 4: "length ?out2 = length out" unfolding out by (rule P(1))
  have 5: "\<forall>i<length out. null_row (out ! i) = out ! i \<longrightarrow> ?out2 ! i = out ! i"
    unfolding out by (rule P(2))
  have 6: "?out2 = out \<longleftrightarrow> ?f' = []" unfolding out by (rule P(3))
  have 7: "set fl \<inter> set ?f' = {}" by (rule P(4))
  have 8: "\<forall>i<length df. bind (getitem (df ! i) ''unit_id'') cc_id \<in> Inr ` set fl \<longrightarrow>
         null_row (out ! i) = out ! i"
  proof (intro allI impI)
    fix i assume i: "i < length df"
      and l: "bind (getitem (df ! i) ''unit_id'') cc_id \<in> Inr ` set fl"
    from set_index_cc_Inr [OF idf] i have "length idf = length df"
      and "bind (getitem (df ! i) ''unit_id'') cc_id = Inr (fst (idf ! i))" by simp_all
    then have "i < length idf" and "fst (idf ! i) \<in> set fl"
      using i l by auto
    then show "null_row (out ! i) = out ! i"
      unfolding out using P(5) by blast
  qed
  from 1 2 3 4 5 6 7 8 show ?thesis by blast
qed

lemma filter_units_fit_units:
  assumes "filter_units df kw = Inr out" and "fit_units df = Inr m"
  shows "\<exists>m'. fit_units out = Inr m'"
proof -
  obtain idf fl where idf: "set_index ''unit_id'' df = Inr idf" "failed_units idf kw = Inr fl"
    and out: "out = reset_index ''unit_id'' (null_failed fl idf)"
    using filter_units_Inr [OF assms(1)] by blast
  have a0: "\<forall>i<length df. map_of (df ! i) ''a0'' \<noteq> None"
    using assms(2) fit_units_Inr [of df] by blast
  have "\<forall>i<length out. map_of (out ! i) ''a0'' \<noteq> None"
    unfolding out by (rule filter_units_a0 [OF idf a0])
  then show ?thesis using fit_units_Inr [of out] by blast
qed

lemma filer_CCs_fit_units:
  assumes "filer_CCs df kw = Inr out" and "fit_units df = Inr m"
  shows "\<exists>m'. fit_units out = Inr m'"
proof -
  obtain idf fl where idf: "set_index_cc df = Inr idf" "failed_CCs idf kw = Inr fl"
    and out: "out = map snd (null_failed fl idf)"
    using filer_CCs_Inr [OF assms(1)] by blast
  have a0: "\<forall>i<length df. map_of (df ! i) ''a0'' \<noteq> None"
    using assms(2) fit_units_Inr [of df] by blast
  have "\<forall>i<length out. map_of (out ! i) ''a0'' \<noteq> None"
    unfolding out by (rule filer_CCs_a0 [OF idf a0])
  then show ?thesis using fit_units_Inr [of out] by blast
qed

lemma group_twice:
  assumes f: "(if contains g ''CC'' then filer_CCs df kw else filter_units df kw) = Inr out"
  shows "\<exists>out2 fl f'.
      (if contains g ''CC'' then filer_CCs out kw else filter_units out kw) = Inr out2 \<and>
      group_failed g df kw = Inr fl \<and> group_failed g out kw = Inr f' \<and>
      length out2 = length out \<and>
      (\<forall>i<length out. null_row (out ! i) = out ! i \<longrightarrow> out2 ! i = out ! i) \<and>
      (out2 = out \<longleftrightarrow> f' = []) \<and> set fl \<inter> set f' = {} \<and>
      (\<forall>i<length df. row_label g (df ! i) \<in> Inr ` set fl \<longrightarrow> null_row (out ! i) = out ! i)"
proof (cases "contains g ''CC''")
  case True
  then have "filer_CCs df kw = Inr out" using f by simp
  from filer_CCs_twice [OF this] show ?thesis
    by (simp add: True group_failed_def row_label_def)
next
  case False
  then have "filter_units df kw = Inr out" using f by simp
  from filter_units_twice [OF this] show ?thesis
    by (simp add: False group_failed_def row_label_def)
qed

text \<open>
  C4 (amended). When an application of the rejection to a group returns a table, a
  second application with the same parameters to that table returns a table of the same
  length, in which every row whose fit columns are all missing is as it was: a rejected
  row is never changed again. The second application changes nothing exactly when it is
  skipped (no more than \<open>min_units\<close> fitted units are left) or finds no failed unit. When
  the first application was not skipped, no unit that failed in it fails in the second,
  and the rows of the units that failed in it have all their fit columns missing.
\<close>

theorem second_rejection:
  "filter_group_fits g df n kw = Inr out \<longrightarrow>
     (\<exists>out2. filter_group_fits g out n kw = Inr out2 \<and> length out2 = length out \<and>
        (\<forall>i<length out. null_row (out ! i) = out ! i \<longrightarrow> out2 ! i = out ! i) \<and>
        (out2 = out \<longleftrightarrow>
           ((\<exists>m. fit_units out = Inr m \<and> m \<le> n) \<or> group_failed g out kw = Inr []))) \<and>
     ((\<exists>m. fit_units df = Inr m \<and> n < m) \<longrightarrow>
        (\<exists>failed failed'. group_failed g df kw = Inr failed \<and>
           group_failed g out kw = Inr failed' \<and> set failed \<inter> set failed' = {} \<and>
           (\<forall>i<length df. row_label g (df ! i) \<in> Inr ` set failed \<longrightarrow>
              null_row (out ! i) = out ! i)))"
proof (intro impI)
  assume 1: "filter_group_fits g df n kw = Inr out"
  then obtain m where m: "fit_units df = Inr m"
    by (cases "fit_units df") (auto simp add: filter_group_fits_def)
  show "(\<exists>out2. filter_group_fits g out n kw = Inr out2 \<and> length out2 = length out \<and>
        (\<forall>i<length out. null_row (out ! i) = out ! i \<longrightarrow> out2 ! i = out ! i) \<and>
        (out2 = out \<longleftrightarrow>
           ((\<exists>m. fit_units out = Inr m \<and> m \<le> n) \<or> group_failed g out kw = Inr []))) \<and>
     ((\<exists>m. fit_units df = Inr m \<and> n < m) \<longrightarrow>
        (\<exists>failed failed'. group_failed g df kw = Inr failed \<and>
           group_failed g out kw = Inr failed' \<and> set failed \<inter> set failed' = {} \<and>
           (\<forall>i<length df. row_label g (df ! i) \<in> Inr ` set failed \<longrightarrow>
              null_row (out ! i) = out ! i)))"
  proof (cases "n < m")
    case False
    then have out: "out = df" using 1 m by (simp add: filter_group_fits_def)
    have 2: "filter_group_fits g out n kw = Inr out"
      using False m by (simp add: filter_group_fits_def out)
    have 3: "\<exists>m. fit_units out = Inr m \<and> m \<le> n" using False m out by simp
    have A: "\<exists>out2. filter_group_fits g out n kw = Inr out2 \<and> length out2 = length out \<and>
        (\<forall>i<length out. null_row (out ! i) = out ! i \<longrightarrow> out2 ! i = out ! i) \<and>
        (out2 = out \<longleftrightarrow>
           ((\<exists>m. fit_units out = Inr m \<and> m \<le> n) \<or> group_failed g out kw = Inr []))"
      by (rule exI [of _ out]) (simp add: 2 3)
    have B: "\<not> (\<exists>m. fit_units df = Inr m \<and> n < m)" using False m by simp
    from A B show ?thesis by blast
  next
    case True
    then have f: "(if contains g ''CC'' then filer_CCs df kw else filter_units df kw) = Inr out"
      using 1 m by (simp add: filter_group_fits_def)
    from group_twice [OF f] obtain out2 fl f' where
      s: "(if contains g ''CC'' then filer_CCs out kw else filter_units out kw) = Inr out2"
      and gf: "group_failed g df kw = Inr fl" and gf': "group_failed g out kw = Inr f'"
      and len: "length out2 = length out"
      and rows: "\<forall>i<length out. null_row (out ! i) = out ! i \<longrightarrow> out2 ! i = out ! i"
      and eq: "out2 = out \<longleftrightarrow> f' = []" and dis: "set fl \<inter> set f' = {}"
      and rej: "\<forall>i<length df. row_label g (df ! i) \<in> Inr ` set fl \<longrightarrow> null_row (out ! i) = out ! i"
      by blast
    obtain m' where m': "fit_units out = Inr m'"
      using f filter_units_fit_units [of df kw out m] filer_CCs_fit_units [of df kw out m] m
      by (cases "contains g ''CC''") auto
    have B: "\<exists>failed failed'. group_failed g df kw = Inr failed \<and>
           group_failed g out kw = Inr failed' \<and> set failed \<inter> set failed' = {} \<and>
           (\<forall>i<length df. row_label g (df ! i) \<in> Inr ` set failed \<longrightarrow>
              null_row (out ! i) = out ! i)"
      using gf gf' dis rej by blast
    have A: "\<exists>out2. filter_group_fits g out n kw = Inr out2 \<and> length out2 = length out \<and>
        (\<forall>i<length out. null_row (out ! i) = out ! i \<longrightarrow> out2 ! i = out ! i) \<and>
        (out2 = out \<longleftrightarrow>
           ((\<exists>m. fit_units out = Inr m \<and> m \<le> n) \<or> group_failed g out kw = Inr []))"
    proof (cases "n < m'")
      case False
      then have 2: "filter_group_fits g out n kw = Inr out"
        using m' by (simp add: filter_group_fits_def)
      have 3: "\<exists>m. fit_units out = Inr m \<and> m \<le> n" using False m' by simp
      show ?thesis by (rule exI [of _ out]) (simp add: 2 3)
    next
      case True
      then have 2: "filter_group_fits g out n kw = Inr out2"
        using m' s by (simp add: filter_group_fits_def)
      have 3: "\<not> (\<exists>m. fit_units out = Inr m \<and> m \<le> n)" using True m' by simp
      have 4: "out2 = out \<longleftrightarrow>
           ((\<exists>m. fit_units out = Inr m \<and> m \<le> n) \<or> group_failed g out kw = Inr [])"
        using 3 eq gf' by auto
      show ?thesis
        by (rule exI [of _ out2]) (intro conjI 2 len rows 4)
    qed
    from A B show ?thesis by blast
  qed
qed


lemma example_twice_index:
  "set_index ''unit_id'' example_fits_twice =
     Inr ((Str ''1_1'', rejected_cols)
          # map (\<lambda>(u, c). (Str u, flat_cols c)) (tl (butlast example_min_hr))
          @ [(Str ''8_1'', rejected_cols)])"
  by (simp add: set_index_def example_fits_twice_def example_min_hr_def example_rows)

lemma example_twice_failed:
  "failed_units ((Str ''1_1'', rejected_cols)
          # map (\<lambda>(u, c). (Str u, flat_cols c)) (tl (butlast example_min_hr))
          @ [(Str ''8_1'', rejected_cols)]) no_kwargs = Inr []"
proof -
  have "apply_hr_min ((Str ''1_1'', rejected_cols)
          # map (\<lambda>(u, c). (Str u, flat_cols c)) (tl (butlast example_min_hr))
          @ [(Str ''8_1'', rejected_cols)])
     = Inr (map (\<lambda>(u, c). (Str u, c)) (tl (butlast example_min_hr)))"
    by (simp add: apply_hr_min_def example_min_hr_def example_rows)
  moreover have "mean [9, 9, 9, 9, 9, 9, 9, 9, 9] = Some 9 \<and> std [9, 9, 9, 9, 9, 9, 9, 9, 9] = Some 0"
    by (simp add: mean_def std_def)
  ultimately show ?thesis
    by (simp add: failed_units_def kw_defaults min_hr_filter_band example_min_hr_def)
qed

lemma example_twice_fit_units: "fit_units example_fits_twice = Inr 9"
  by (simp add: fit_units_def example_fits_twice_def example_min_hr_def getitem_a0)

theorem second_rejection_witness:
  "filter_group_fits ''CT (NG)'' example_fits 5 no_kwargs = Inr example_fits_once \<and>
   filter_group_fits ''CT (NG)'' example_fits_once 5 no_kwargs = Inr example_fits_twice \<and>
   group_failed ''CT (NG)'' example_fits no_kwargs = Inr [Str ''8_1''] \<and>
   group_failed ''CT (NG)'' example_fits_once no_kwargs = Inr [Str ''1_1''] \<and>
   length example_fits_twice = length example_fits_once \<and>
   null_row (example_fits_once ! 10) = example_fits_once ! 10 \<and>
   example_fits_twice ! 10 = example_fits_once ! 10 \<and>
   example_fits_twice \<noteq> example_fits_once \<and>
   group_failed ''CT (NG)'' example_fits_twice no_kwargs = Inr [] \<and>
   filter_group_fits ''CT (NG)'' example_fits_twice 5 no_kwargs = Inr example_fits_twice"
proof -
  let ?g = "''CT (NG)''"
  have cc: "\<not> contains ?g ''CC''" by (simp add: startswith_def)
  have 1: "filter_group_fits ?g example_fits 5 no_kwargs = Inr example_fits_once"
    using cc by (simp add: filter_group_fits_def example_fit_units example_fits_filtered)
  have 2: "filter_group_fits ?g example_fits_once 5 no_kwargs = Inr example_fits_twice"
    using cc by (simp add: filter_group_fits_def example_fit_units example_once_filtered)
  have f0: "group_failed ?g example_fits no_kwargs = Inr [Str ''8_1'']"
    using cc by (simp add: group_failed_def example_fits_index example_fits_failed)
  have f1: "group_failed ?g example_fits_once no_kwargs = Inr [Str ''1_1'']"
    using cc by (simp add: group_failed_def example_once_index example_once_failed)
  have f2: "group_failed ?g example_fits_twice no_kwargs = Inr []"
    using cc by (simp add: group_failed_def example_twice_index example_twice_failed)
  have len: "10 < length example_fits" "10 < length example_fits_once"
    by (simp_all add: example_fits_def example_fits_once_def example_min_hr_def)
  have lab: "row_label ?g (example_fits ! 10) \<in> Inr ` set [Str ''8_1'']"
    using cc by (simp add: row_label_def example_fits_def example_min_hr_def getitem_flat_unit_id)
  note t = mp [OF second_rejection [of ?g example_fits 5 no_kwargs example_fits_once] 1]
  note u = mp [OF second_rejection [of ?g example_fits_once 5 no_kwargs example_fits_twice] 2]
  from conjunct1 [OF t] 2 have a:
    "length example_fits_twice = length example_fits_once \<and>
     (\<forall>i<length example_fits_once. null_row (example_fits_once ! i) = example_fits_once ! i \<longrightarrow>
        example_fits_twice ! i = example_fits_once ! i) \<and>
     (example_fits_twice = example_fits_once \<longleftrightarrow>
        ((\<exists>m. fit_units example_fits_once = Inr m \<and> m \<le> 5) \<or>
         group_failed ?g example_fits_once no_kwargs = Inr []))"
    by auto
  have "\<exists>m. fit_units example_fits = Inr m \<and> 5 < m" by (simp add: example_fit_units)
  from mp [OF conjunct2 [OF t] this] f0 have
    "\<forall>i<length example_fits. row_label ?g (example_fits ! i) \<in> Inr ` set [Str ''8_1''] \<longrightarrow>
       null_row (example_fits_once ! i) = example_fits_once ! i"
    by auto
  then have 3: "null_row (example_fits_once ! 10) = example_fits_once ! 10"
    using len(1) lab by blast
  then have 4: "example_fits_twice ! 10 = example_fits_once ! 10"
    using a len(2) by blast
  have 5: "example_fits_twice \<noteq> example_fits_once"
    using a f1 by (simp add: example_fit_units)
  from conjunct1 [OF u] f2 have 6:
    "filter_group_fits ?g example_fits_twice 5 no_kwargs = Inr example_fits_twice"
    by auto
  from 1 2 f0 f1 a 3 4 5 f2 6 show ?thesis by blast
qed

lemma cc_fits_failed:
  "failed_CCs [(Str ''7'', flat_fit ''7-0'' (36 / 5)),
     (Str ''7'', flat_fit ''7-1'' (89 / 10)), (Str ''8'', flat_fit ''8-0'' 12)] no_kwargs
   = Inr [Str ''8'']"
proof -
  have "mean [36 / 5] = Some (36 / 5) \<and> std [36 / 5] = Some 0"
    by (simp add: mean_def std_def)
  then show ?thesis
    by (simp add: failed_CCs_def cc_fits_min_hr kw_defaults min_hr_filter_band)
qed

lemma null_row_flat_fit: "null_row (flat_fit u c) = rejected_fit u"
proof -
  have "null_row ((''unit_id'', Str u) # r) = (''unit_id'', Str u) # null_row r" for r
    using null_row_no_unit_id by (simp add: null_row_def)
  then show ?thesis by (simp add: flat_fit_def rejected_fit_def null_row_flat_cols)
qed

theorem rejection_frame_witness:
  "filter_units example_fits no_kwargs = Inr example_fits_once \<and>
   length example_fits_once = length example_fits \<and>
   map_of (example_fits_once ! 10) ''a0'' = Some NA \<and>
   map_of (example_fits_once ! 10) ''load_max'' = Some (Num 100) \<and>
   map_of (example_fits_once ! 0) ''a0'' = Some (Num 5) \<and>
   filer_CCs cc_fits no_kwargs
     = Inr [flat_fit ''7-0'' (36 / 5), flat_fit ''7-1'' (89 / 10), rejected_fit ''8-0''] \<and>
   nulled (flat_cols 9) ''total_load'' = Some (Num 50000)"
proof -
  let ?idf = "map (\<lambda>(u, c). (Str u, flat_cols c)) example_min_hr"
  let ?cc = "[(Str ''7'', flat_fit ''7-0'' (36 / 5)),
     (Str ''7'', flat_fit ''7-1'' (89 / 10)), (Str ''8'', flat_fit ''8-0'' 12)]"
  let ?cc_out = "[flat_fit ''7-0'' (36 / 5), flat_fit ''7-1'' (89 / 10), rejected_fit ''8-0'']"
  have cc: "filer_CCs cc_fits no_kwargs = Inr ?cc_out"
    by (simp add: filer_CCs_def cc_fits_index cc_fits_failed null_failed_def null_row_flat_fit)
  note t = rejection_frame [of example_fits ?idf no_kwargs "[Str ''8_1'']" cc_fits ?cc
      "[Str ''8'']" example_fits_once ?cc_out "''total_load''" "flat_cols 9"]
  have nf: "\<not> filter_col ''total_load''" by (simp add: filter_col_def startswith_def)
  note t1 = conjunct1 [OF t]
  note t5 = conjunct1 [OF conjunct2 [OF conjunct2 [OF conjunct2 [OF conjunct2 [OF t]]]]]
  have "nulled (flat_cols 9) ''total_load'' = map_of (flat_cols 9) ''total_load''"
    by (rule mp [OF t5 nf])
  then have 1: "nulled (flat_cols 9) ''total_load'' = Some (Num 50000)"
    by (simp add: flat_cols_def)
  have "\<exists>out. filter_units example_fits no_kwargs = Inr out \<and> length out = length example_fits"
    using mp [OF t1 conjI [OF example_fits_index example_fits_failed]] by blast
  then have 2: "filter_units example_fits no_kwargs = Inr example_fits_once \<and>
     length example_fits_once = length example_fits"
    by (simp add: example_fits_filtered)
  have 3: "map_of (example_fits_once ! 10) ''a0'' = Some NA \<and>
   map_of (example_fits_once ! 10) ''load_max'' = Some (Num 100) \<and>
   map_of (example_fits_once ! 0) ''a0'' = Some (Num 5)"
    by (simp add: example_fits_once_def example_min_hr_def flat_fit_def flat_cols_def
        rejected_fit_def rejected_cols_def nth_append)
  from 1 2 3 cc show ?thesis by simp
qed

subsection \<open>One fit row\<close>

lemma load_index_0: "load_index 0 = Inl IndexError"
  by (simp add: load_index_def)

lemma load_index_pos:
  "0 < points \<Longrightarrow> \<exists>index. load_index points = Inr index \<and> length index = points"
  by (simp add: load_index_def Let_def)


lemma map_of_setitem: "map_of (setitem r k v) c = (if c = k then Some v else map_of r c)"
  by (induction r) auto

lemma map_of_NA_index:
  "map_of (map (\<lambda>c. (c, NA)) index) c = (if c \<in> set index then Some NA else None)"
  by (induction index) auto


lemma extract_fit_no_fit:
  assumes "0 < points"
    and "load = [] \<or> (\<exists>e. polyfit load heat_rate order = Inl e) \<or>
         (\<exists>fit. polyfit load heat_rate order = Inr fit \<and> rank fit \<le> 1)"
  shows "\<exists>row. extract_fit polyfit load heat_rate order points = Inr row \<and>
           list_all (\<lambda>c. map_of row c = Some NA) [''a4'', ''a3'', ''a2'', ''a1'', ''a0''] \<and>
           map_of row ''load_min'' = Some (case load of [] \<Rightarrow> NA | x # xs \<Rightarrow> Num (fold min xs x)) \<and>
           map_of row ''load_max'' = Some (case load of [] \<Rightarrow> NA | x # xs \<Rightarrow> Num (fold max xs x))"
proof -
  obtain index where index: "load_index points = Inr index" "length index = points"
    using load_index_pos [OF assms(1)] by blast
  show ?thesis
  proof (cases load)
    case Nil
    then show ?thesis
      by (simp add: extract_fit_def index series_def map_of_setitem)
  next
    case (Cons x xs)
    then have "(\<exists>e. polyfit load heat_rate order = Inl e) \<or>
         (\<exists>fit. polyfit load heat_rate order = Inr fit \<and> rank fit \<le> 1)"
      using assms(2) by simp
    then show ?thesis
    proof
      assume "\<exists>e. polyfit load heat_rate order = Inl e"
      then obtain e where "polyfit (x # xs) heat_rate order = Inl e" using Cons by blast
      then show ?thesis
        by (simp add: extract_fit_def Cons index series_def map_of_setitem)
    next
      assume "\<exists>fit. polyfit load heat_rate order = Inr fit \<and> rank fit \<le> 1"
      then obtain fit where "polyfit (x # xs) heat_rate order = Inr fit" "rank fit \<le> 1"
        using Cons by blast
      then show ?thesis
        by (simp add: extract_fit_def Cons index series_def map_of_setitem)
    qed
  qed
qed


lemma extract_fit_ValueError:
  assumes "load \<noteq> []" and "polyfit load heat_rate order = Inr fit"
    and "1 < rank fit" and "length (coefficients fit) \<noteq> 5"
  shows "extract_fit polyfit load heat_rate order points = Inl ValueError"
proof -
  obtain x xs where load: "load = x # xs" using assms(1) by (cases load) auto
  show ?thesis
    using assms(2,3,4) by (simp add: extract_fit_def load series_def Let_def)
qed


lemma card_123: "card (set [1, 2, 3 :: real]) = 3"
  by simp

lemma polyfit_zero_123:
  "polyfit_zero_ordinates [1, 2, 3] [0, 0, 0] order =
     Inr \<lparr>coefficients = replicate (order + 1) 0, rank = min 3 (order + 1)\<rparr>"
  unfolding polyfit_zero_ordinates_def card_123 by simp





text \<open>
  C6. The coefficient labels are the fixed list \<open>a4, ..., a0\<close>, whatever the order. With
  order 3 an accepted fit has four coefficients, and building the coefficient series
  raises \<^verbatim>\<open>ValueError\<close>: no row is returned.
\<close>

theorem extract_fit_order_3:
  "extract_fit polyfit_zero_ordinates [1, 2, 3] [0, 0, 0] 3 5 = Inl ValueError"
  by (rule extract_fit_ValueError [where fit = "\<lparr>coefficients = replicate (3 + 1) 0, rank = min 3 (3 + 1)\<rparr>"])
    (simp_all add: polyfit_zero_123)

text \<open>
  With \<open>points = 0\<close> there is no label to rename, and \<^verbatim>\<open>extract_fit\<close> raises
  \<^verbatim>\<open>IndexError\<close> on an empty load instead of returning a row.
\<close>

theorem extract_fit_no_points_counterexample:
  "extract_fit polyfit_zero_ordinates [] [] 4 0 = Inl IndexError"
  by (simp add: extract_fit_def series_def load_index_0)

text \<open>
  C8 (amended). For \<open>points > 0\<close>: on an empty load \<^verbatim>\<open>extract_fit\<close> returns a row whose
  \<open>load_min\<close>, \<open>load_max\<close> and coefficients are missing, and the fit is not consulted
  (the result is the same for every fit function); and whenever the fit raises, the
  exception is caught and the row is returned with missing coefficients.
\<close>

theorem extract_fit_empty_or_failed:
  "0 < points \<longrightarrow>
     (\<exists>row. extract_fit polyfit [] heat_rate order points = Inr row \<and>
        map_of row ''load_min'' = Some NA \<and> map_of row ''load_max'' = Some NA \<and>
        list_all (\<lambda>c. map_of row c = Some NA) [''a4'', ''a3'', ''a2'', ''a1'', ''a0'']) \<and>
     extract_fit polyfit [] heat_rate order points = extract_fit polyfit' [] heat_rate order points \<and>
     (load \<noteq> [] \<and> polyfit load heat_rate order = Inl e \<longrightarrow>
        (\<exists>row. extract_fit polyfit load heat_rate order points = Inr row \<and>
           list_all (\<lambda>c. map_of row c = Some NA) [''a4'', ''a3'', ''a2'', ''a1'', ''a0'']))"
proof (intro impI conjI)
  assume p: "0 < points"
  show "\<exists>row. extract_fit polyfit [] heat_rate order points = Inr row \<and>
        map_of row ''load_min'' = Some NA \<and> map_of row ''load_max'' = Some NA \<and>
        list_all (\<lambda>c. map_of row c = Some NA) [''a4'', ''a3'', ''a2'', ''a1'', ''a0'']"
    using extract_fit_no_fit [of points "[]" polyfit heat_rate order] p by auto
next
  show "extract_fit polyfit [] heat_rate order points = extract_fit polyfit' [] heat_rate order points"
    by (simp add: extract_fit_def)
next
  assume p: "0 < points" and a: "load \<noteq> [] \<and> polyfit load heat_rate order = Inl e"
  then show "\<exists>row. extract_fit polyfit load heat_rate order points = Inr row \<and>
           list_all (\<lambda>c. map_of row c = Some NA) [''a4'', ''a3'', ''a2'', ''a1'', ''a0'']"
    using extract_fit_no_fit [of points load polyfit heat_rate order] by blast
qed


theorem extract_fit_empty_or_failed_witness:
  "(\<exists>row. extract_fit polyfit_zero_ordinates [] [] 4 5 = Inr row \<and>
      map_of row ''load_min'' = Some NA \<and> map_of row ''load_max'' = Some NA \<and>
      list_all (\<lambda>c. map_of row c = Some NA) [''a4'', ''a3'', ''a2'', ''a1'', ''a0'']) \<and>
   (\<exists>row. extract_fit polyfit_zero_ordinates [1, 2] [0] 4 5 = Inr row \<and>
      list_all (\<lambda>c. map_of row c = Some NA) [''a4'', ''a3'', ''a2'', ''a1'', ''a0''])"
proof -
  have 1: "polyfit_zero_ordinates [1, 2] [0] 4 = Inl TypeError"
    by (simp add: polyfit_zero_ordinates_def)
  show ?thesis
    using 1
      extract_fit_empty_or_failed [where points = 5 and polyfit = polyfit_zero_ordinates
        and heat_rate = "[]" and order = 4 and polyfit' = polyfit_zero_ordinates
        and load = "[1, 2]" and e = TypeError]
      extract_fit_empty_or_failed [where points = 5 and polyfit = polyfit_zero_ordinates
        and heat_rate = "[0]" and order = 4 and polyfit' = polyfit_zero_ordinates
        and load = "[1, 2]" and e = TypeError]
    by simp
qed

subsection \<open>The minimum number of fitted units\<close>

lemma map_err_append:
  "map_err f (xs @ ys) =
     bind (map_err f xs) (\<lambda>a. bind (map_err f ys) (\<lambda>b. Inr (a @ b)))"
proof (induction xs)
  case Nil
  show ?case by (cases "map_err f ys") simp_all
next
  case (Cons x xs)
  then show ?case
    by (cases "f x"; cases "map_err f xs"; cases "map_err f ys") simp_all
qed

lemma map_err_map:
  "(\<And>x. x \<in> set xs \<Longrightarrow> f (g x) = Inr (h x)) \<Longrightarrow> map_err f (map g xs) = Inr (map h xs)"
  by (induction xs) auto

lemma fits_150_length: "length fits_150 = 150"
  by (simp add: fits_150_def)

lemma fits_150_fit_units: "fit_units fits_150 = Inr 100"
proof -
  have "map_err (\<lambda>r. getitem r ''a0'') fits_150
      = Inr (map (\<lambda>i. Num 9) [0..<99] @ [Num 30] @ map (\<lambda>i. NA) [100..<150])"
    unfolding fits_150_def
    by (simp add: map_err_append map_err_map [where h = "\<lambda>i. Num 9"]
        map_err_map [where h = "\<lambda>i. NA"] getitem_a0)
  then show ?thesis by (simp add: fit_units_def)
qed

lemma fits_150_skipped:
  "filter_group_fits ''CT (NG)'' fits_150 100 no_kwargs = Inr fits_150"
  by (simp add: filter_group_fits_def fits_150_fit_units)

lemma fits_150_index: "set_index ''unit_id'' fits_150 = Inr idf_150"
  unfolding fits_150_def idf_150_def set_index_def
  by (simp add: map_err_append
      map_err_map [where h = "\<lambda>i. (Str (unit_name i), flat_cols 9)"]
      map_err_map [where h = "\<lambda>i. (Str (unit_name i), rejected_cols)"] example_rows)

lemma fits_150_min_hr:
  "apply_hr_min idf_150 =
     Inr (map (\<lambda>i. (Str (unit_name i), 9)) [0..<99] @ [(Str (unit_name 99), 30)])"
proof -
  have "map_err (\<lambda>(l, r). bind (get_hr_min r 100) (\<lambda>m. Inr (l, m))) idf_150
     = Inr (map (\<lambda>i. (Str (unit_name i), Some 9)) [0..<99] @ [(Str (unit_name 99), Some 30)]
         @ map (\<lambda>i. (Str (unit_name i), None)) [100..<150])"
    unfolding idf_150_def
    by (simp add: map_err_append
      map_err_map [where h = "\<lambda>i. (Str (unit_name i), Some 9)"]
      map_err_map [where h = "\<lambda>i. (Str (unit_name i), None)"] example_rows)
  moreover have "concat (map (\<lambda>(l, m). case m of None \<Rightarrow> [] | Some v \<Rightarrow> [(l, v)])
        (map (\<lambda>i. (Str (unit_name i), Some 9)) xs)) = map (\<lambda>i. (Str (unit_name i), 9)) xs"
    for xs :: "nat list"
    by (induction xs) simp_all
  moreover have "concat (map (\<lambda>(l, m). case m of None \<Rightarrow> [] | Some v \<Rightarrow> [(l, v)])
        (map (\<lambda>i. (Str (unit_name i), None :: real option)) xs)) = []"
    for xs :: "nat list"
    by (induction xs) simp_all
  ultimately show ?thesis by (simp add: apply_hr_min_def)
qed

lemma stats_150:
  "\<exists>s. mean (replicate 99 9 @ [30]) = Some (921 / 100) \<and>
       std (replicate 99 9 @ [30]) = Some s \<and> 1 < s \<and> s < 10"
proof -
  have m: "mean (replicate 99 9 @ [30]) = Some (921 / 100)"
    by (simp add: mean_def sum_list_replicate)
  have "sum_list (map (\<lambda>x. \<bar>x - 921 / 100\<bar>\<^sup>2) (replicate 99 (9 :: real) @ [30])) = 43659 / 100"
    by (simp add: sum_list_replicate power2_eq_square)
  then have s: "std (replicate 99 9 @ [30]) = Some (sqrt (43659 / 10000))"
    by (simp add: std_def m)
  have "1 < sqrt (43659 / 10000)" by (rule real_less_rsqrt) simp
  moreover have "sqrt (43659 / 10000) < 10" by (rule real_less_lsqrt) simp_all
  ultimately show ?thesis using m s by blast
qed

lemma fits_150_failed: "failed_units idf_150 no_kwargs = Inr [Str (unit_name 99)]"
proof -
  obtain s where s: "mean (replicate 99 9 @ [30]) = Some (921 / 100)"
    "std (replicate 99 9 @ [30]) = Some s" "1 < s" "s < 10"
    using stats_150 by blast
  have v: "map snd (map (\<lambda>i. (Str (unit_name i), 9 :: real)) [0..<99] @ [(Str (unit_name 99), 30)])
      = replicate 99 9 @ [30]"
    by (simp add: map_replicate_const comp_def)
  have f: "filter (\<lambda>(l, v). v < 921 / 100 - 2 * s \<or> 921 / 100 + 2 * s < v)
        (map (\<lambda>i. (Str (unit_name i), 9 :: real)) xs) = []" for xs :: "nat list"
    using s(3) by (induction xs) simp_all
  show ?thesis
    using s(3,4)
    by (simp add: failed_units_def fits_150_min_hr kw_defaults min_hr_filter_band v s(1,2) f
        del: map_append map_map)
qed

lemma fits_150_rejected:
  "\<exists>out. filter_units fits_150 no_kwargs = Inr out \<and> out ! 99 = rejected_fit (unit_name 99) \<and>
     fits_150 ! 99 = flat_fit (unit_name 99) 30"
proof -
  have "reset_index ''unit_id'' (null_failed [Str (unit_name 99)] idf_150) ! 99
      = rejected_fit (unit_name 99)"
    by (simp add: idf_150_def reset_index_def null_failed_def nth_append example_rows
        rejected_fit_def)
  moreover have "fits_150 ! 99 = flat_fit (unit_name 99) 30"
    by (simp add: fits_150_def nth_append)
  ultimately show ?thesis
    by (simp add: filter_units_def fits_150_index fits_150_failed)
qed

text \<open>
  C5. The group is filtered only when \<^verbatim>\<open>fit_units > min_units\<close>. A group of 150 units,
  50 of them without a fit, has 100 fitted units, and with the default \<open>min_units = 100\<close>
  it is skipped: the table is returned as it is, although the fit of unit \<open>99_1\<close> lies
  outside the band of the 100 defined minima and is rejected as soon as \<open>min_units\<close> is 99.
\<close>

theorem fits_150_not_filtered:
  "length fits_150 = 150 \<and>
   length (filter (\<lambda>r. map_of r ''a0'' = Some NA) fits_150) = 50 \<and>
   fit_units fits_150 = Inr 100 \<and>
   filter_group_fits ''CT (NG)'' fits_150 100 no_kwargs = Inr fits_150 \<and>
   filter_group_fits ''CT (NG)'' fits_150 99 no_kwargs \<noteq> Inr fits_150"
proof -
  obtain out where out: "filter_units fits_150 no_kwargs = Inr out"
    "out ! 99 = rejected_fit (unit_name 99)" "fits_150 ! 99 = flat_fit (unit_name 99) 30"
    using fits_150_rejected by blast
  have "rejected_fit (unit_name 99) \<noteq> flat_fit (unit_name 99) 30"
    by (simp add: rejected_fit_def flat_fit_def rejected_cols_def flat_cols_def)
  then have "out \<noteq> fits_150" using out(2,3) by auto
  moreover have "\<not> contains ''CT (NG)'' ''CC''" by (simp add: startswith_def)
  ultimately have 1: "filter_group_fits ''CT (NG)'' fits_150 99 no_kwargs \<noteq> Inr fits_150"
    using out(1) by (simp add: filter_group_fits_def fits_150_fit_units)
  have a0: "map_of (flat_fit u c) ''a0'' = Some (Num c)" "map_of (rejected_fit u) ''a0'' = Some NA"
    for u c
    by (simp_all add: flat_fit_def flat_cols_def rejected_fit_def rejected_cols_def)
  have 2: "length (filter (\<lambda>r. map_of r ''a0'' = Some NA) fits_150) = 50"
    by (simp add: fits_150_def a0 filter_map comp_def)
  from 1 2 show ?thesis
    by (simp add: fits_150_length fits_150_fit_units fits_150_skipped)
qed

end
